theory Spec2Isabelle
  imports Complex_Main "HOL-Library.Sublist" "HOL-Library.Log_Nat"
begin

section \<open>JavaScript numbers\<close>

text \<open>
  A JavaScript number is an IEEE 754 binary64 value: \<open>NaN\<close>, one of the two infinities,
  negative zero, or a finite value, which is a rational number \<open>m * 2 ^ e\<close> with
  \<open>\<bar>m\<bar> < 2 ^ 53\<close>, \<open>- 1074 \<le> e\<close> and magnitude below \<open>2 ^ 1024\<close>. Arithmetic
  computes the exact result and rounds it to the nearest such value, ties to the even
  significand, and to an infinity from \<open>2 ^ 1024 - 2 ^ 970\<close> on.

  \<open>floor_log2 q\<close> is the exponent of \<open>q \<noteq> 0\<close>:
  \<open>2 ^ floor_log2 q \<le> \<bar>q\<bar> < 2 ^ (floor_log2 q + 1)\<close>. It is computed from the bit
  lengths of numerator and denominator, which fix it up to one.
\<close>

definition floor_log2 :: "rat \<Rightarrow> int" where
  "floor_log2 q =
     (let (a, b) = quotient_of \<bar>q\<bar>;
          d = bitlen a - bitlen b
      in if 2 powi d \<le> \<bar>q\<bar> then d else d - 1)"

text \<open>
  The exponent of the unit in the last place of the binary64 values around \<open>q\<close>: 52
  binary places below the leading one, and never below the subnormal unit
  \<open>2 ^ - 1074\<close>.
\<close>

definition ulp_exponent :: "rat \<Rightarrow> int" where
  "ulp_exponent q = max (floor_log2 q - 52) (- 1074)"

text \<open>The nearest integer, the even one of two that are equally near.\<close>

definition round_half_even :: "rat \<Rightarrow> int" where
  "round_half_even x =
     (let f = \<lfloor>x\<rfloor>; r = x - of_int f
      in if r < 1 / 2 then f else if 1 / 2 < r then f + 1 else if even f then f else f + 1)"

text \<open>
  \<open>round64 q\<close> is the nearest multiple of the unit in the last place; it is a binary64
  value unless it has left the range.
\<close>

definition round64 :: "rat \<Rightarrow> rat" where
  "round64 q =
     (if q = 0 then 0
      else of_int (round_half_even (q / 2 powi ulp_exponent q)) * 2 powi ulp_exponent q)"

text \<open>
  The finite binary64 values: rounding leaves them as they are, and their exponent is
  below 1024, which says \<open>\<bar>q\<bar> < 2 ^ 1024\<close> (\<open>representable_iff\<close>).
\<close>

definition representable :: "rat \<Rightarrow> bool" where
  "representable q \<longleftrightarrow> round64 q = q \<and> floor_log2 q < 1024"

typedef double = "{q :: rat. representable q}"
  morphisms double_value Abs_double
proof
  show "0 \<in> {q :: rat. representable q}" by code_simp
qed

instantiation double :: equal
begin

definition equal_double :: "double \<Rightarrow> double \<Rightarrow> bool" where
  "equal_double a b \<longleftrightarrow> double_value a = double_value b"

instance
  by standard (simp add: equal_double_def double_value_inject)

end

text \<open>The finite binary64 value nearest to \<open>q\<close>, for \<open>q\<close> in range.\<close>

definition nearest :: "rat \<Rightarrow> double" where
  "nearest q = Abs_double (if representable (round64 q) then round64 q else 0)"

text \<open>A number; \<open>Num d\<close> with \<open>double_value d = 0\<close> is positive zero.\<close>

datatype jsnum = NaN | PosInf | NegInf | NegZero | Num double

text \<open>
  The number nearest to a rational: the value of a numeric literal, and the rounding of
  an exact result. A result that rounds to zero keeps the sign it had.
\<close>

definition number :: "rat \<Rightarrow> jsnum" where
  "number q =
     (if 1024 \<le> floor_log2 (round64 q) then (if q < 0 then NegInf else PosInf)
      else if round64 q = 0 \<and> q < 0 then NegZero
      else Num (nearest q))"

fun negative :: "jsnum \<Rightarrow> bool" where
  "negative NegInf = True"
| "negative NegZero = True"
| "negative (Num d) = (double_value d < 0)"
| "negative x = False"

fun is_zero :: "jsnum \<Rightarrow> bool" where
  "is_zero NegZero = True"
| "is_zero (Num d) = (double_value d = 0)"
| "is_zero x = False"

fun is_infinite :: "jsnum \<Rightarrow> bool" where
  "is_infinite PosInf = True"
| "is_infinite NegInf = True"
| "is_infinite x = False"

text \<open>The rational a finite number stands for.\<close>

fun value_of :: "jsnum \<Rightarrow> rat option" where
  "value_of (Num d) = Some (double_value d)"
| "value_of NegZero = Some 0"
| "value_of x = None"

text \<open>
  The operator \<^verbatim>\<open>*\<close> on two numbers. \<open>NaN\<close> gives \<open>NaN\<close>, and so does an infinity
  times a zero; an infinity times anything else is an infinity, and a zero times a
  finite number a zero, with the product of the signs; the product of two finite numbers
  other than zero is their exact product, rounded.
\<close>

definition js_times :: "jsnum \<Rightarrow> jsnum \<Rightarrow> jsnum" where
  "js_times x y =
     (if x = NaN \<or> y = NaN then NaN
      else if is_infinite x \<or> is_infinite y then
        (if is_zero x \<or> is_zero y then NaN
         else if negative x \<noteq> negative y then NegInf else PosInf)
      else if is_zero x \<or> is_zero y then
        (if negative x \<noteq> negative y then NegZero else number 0)
      else number (the (value_of x) * the (value_of y)))"

section \<open>JavaScript values\<close>

text \<open>
  The program is TypeScript; its types are erased when it runs, and the arguments of a
  tool come out of \<^verbatim>\<open>JSON.parse\<close> with type \<^verbatim>\<open>any\<close>. The tool implementations are
  therefore modelled over JavaScript values, not over their declared parameter types:
  what they do with a value of another type is part of the model.
\<close>

text \<open>
  The values \<^verbatim>\<open>JSON.parse\<close> can return, and \<^verbatim>\<open>undefined\<close>, which reading an absent
  property gives. An object is the list of its own properties, each name once.
\<close>

datatype jsval =
    JUndefined
  | JNull
  | JBool bool
  | JNum jsnum
  | JStr string
  | JArr "jsval list"
  | JObj "(string \<times> jsval) list"

text \<open>What the program can throw.\<close>

datatype error =
    Error string  \<comment> \<open>\<^verbatim>\<open>new Error(message)\<close>\<close>
  | TypeError     \<comment> \<open>a property of \<^verbatim>\<open>null\<close> or \<^verbatim>\<open>undefined\<close> is read, or an object has no primitive value\<close>
  | SyntaxError   \<comment> \<open>\<^verbatim>\<open>JSON.parse\<close> rejects its input\<close>
  | APIError      \<comment> \<open>the request to the model endpoint fails\<close>

text \<open>
  \<open>bind\<close> sequences two steps of which the first may throw.
\<close>

fun bind :: "error + 'a \<Rightarrow> ('a \<Rightarrow> error + 'b) \<Rightarrow> error + 'b" where
  "bind (Inl e) f = Inl e"
| "bind (Inr x) f = f x"

text \<open>
  Reading a property, \<^verbatim>\<open>args.origin\<close>. On \<^verbatim>\<open>null\<close> and \<^verbatim>\<open>undefined\<close> it throws a
  TypeError. On an object it is the own property of that name, \<^verbatim>\<open>undefined\<close> when there
  is none; on a boolean, a number, a string or an array it is \<^verbatim>\<open>undefined\<close>. The last
  two hold for the property names the program reads (origin, destination, tripType, city,
  nights, amount, from, to), none of which is inherited from a prototype.
\<close>

definition property :: "(string \<times> jsval) list \<Rightarrow> string \<Rightarrow> jsval" where
  "property kvs k = (case map_of kvs k of None \<Rightarrow> JUndefined | Some v \<Rightarrow> v)"

fun get_prop :: "jsval \<Rightarrow> string \<Rightarrow> error + jsval" where
  "get_prop JUndefined k = Inl TypeError"
| "get_prop JNull k = Inl TypeError"
| "get_prop (JObj kvs) k = Inr (property kvs k)"
| "get_prop v k = Inr JUndefined"

section \<open>Tool results\<close>

record flight_schedule =
  origin :: jsval
  destination :: jsval
  tripType :: jsval
  totalFlightTimeHours :: jsnum
  totalCostUSD :: jsnum

record hotel_booking =
  city :: jsval
  nights :: jsval
  costPerNightUSD :: jsnum
  totalHotelCostUSD :: jsnum

text \<open>The fields \<^verbatim>\<open>from\<close> and \<^verbatim>\<open>to\<close> of the source are \<open>from_code\<close> and \<open>to_code\<close>.\<close>

record currency_conversion =
  from_code :: jsval
  to_code :: jsval
  originalAmount :: jsval
  convertedAmount :: jsnum

datatype tool_result =
    Flight flight_schedule
  | Hotel hotel_booking
  | Currency currency_conversion

section \<open>The runtime\<close>

text \<open>
  What the program takes from the JavaScript runtime and does not define itself:
  \<^item> \<open>coerce\<close>: the conversion to a number of a string, an array or an object
    (ToPrimitive, then StringToNumber), which throws a TypeError on an object with no
    primitive value;
  \<^item> \<open>JSON_parse\<close>: \<^verbatim>\<open>JSON.parse\<close>, \<open>None\<close> when it throws a SyntaxError;
  \<^item> \<open>JSON_stringify\<close>: \<^verbatim>\<open>JSON.stringify\<close> on the result of a tool.
  Every theorem holds for every runtime.
\<close>

record runtime =
  coerce :: "jsval \<Rightarrow> error + jsnum"
  JSON_parse :: "string \<Rightarrow> jsval option"
  JSON_stringify :: "tool_result \<Rightarrow> string"

text \<open>
  The conversion \<^verbatim>\<open>*\<close> applies to an operand: \<^verbatim>\<open>undefined\<close> is \<open>NaN\<close>,
  \<^verbatim>\<open>null\<close> is 0, \<^verbatim>\<open>true\<close> is 1, \<^verbatim>\<open>false\<close> is 0, a number is itself.
\<close>

fun ToNumber :: "runtime \<Rightarrow> jsval \<Rightarrow> error + jsnum" where
  "ToNumber rt JUndefined = Inr NaN"
| "ToNumber rt JNull = Inr (number 0)"
| "ToNumber rt (JBool b) = Inr (number (if b then 1 else 0))"
| "ToNumber rt (JNum x) = Inr x"
| "ToNumber rt v = coerce rt v"

section \<open>The tool implementations\<close>

text \<open>
  \<^verbatim>\<open>tripType === "round-trip"\<close> is strict equality: it holds of the string
  \<^verbatim>\<open>"round-trip"\<close> and of no other value.
\<close>

definition getFlightSchedule :: "jsval \<Rightarrow> jsval \<Rightarrow> jsval \<Rightarrow> flight_schedule" where
  "getFlightSchedule org dst tt =
     (let oneWayDurationHours = number 5.5;
          oneWayCost = number 420
      in \<lparr> origin = org,
           destination = dst,
           tripType = tt,
           totalFlightTimeHours =
             (if tt = JStr ''round-trip'' then js_times oneWayDurationHours (number 2)
              else oneWayDurationHours),
           totalCostUSD =
             (if tt = JStr ''round-trip'' then js_times oneWayCost (number 2) else oneWayCost) \<rparr>)"

text \<open>
  \<^verbatim>\<open>costPerNightUSD * nights\<close> converts \<^verbatim>\<open>nights\<close> to a number first, which can throw.
\<close>

definition getHotelBooking :: "runtime \<Rightarrow> jsval \<Rightarrow> jsval \<Rightarrow> error + hotel_booking" where
  "getHotelBooking rt c n =
     (let costPerNight = number 120
      in bind (ToNumber rt n) (\<lambda>n'.
           Inr \<lparr> city = c,
                 nights = n,
                 costPerNightUSD = costPerNight,
                 totalHotelCostUSD = js_times costPerNight n' \<rparr>))"

definition convertCurrency :: "runtime \<Rightarrow> jsval \<Rightarrow> jsval \<Rightarrow> jsval \<Rightarrow> error + currency_conversion" where
  "convertCurrency rt amount frm t =
     (let rate = number 1.0
      in bind (ToNumber rt amount) (\<lambda>amount'.
           Inr \<lparr> from_code = frm,
                 to_code = t,
                 originalAmount = amount,
                 convertedAmount = js_times amount' rate \<rparr>))"

section \<open>The tool dispatcher\<close>

text \<open>
  The arguments of a call are evaluated left to right, before the call; the first read of
  a property of \<^verbatim>\<open>null\<close> throws.
\<close>

definition executeTool :: "runtime \<Rightarrow> string \<Rightarrow> jsval \<Rightarrow> error + tool_result" where
  "executeTool rt nm args =
     (if nm = ''get_flight_schedule'' then
        bind (get_prop args ''origin'') (\<lambda>a1.
        bind (get_prop args ''destination'') (\<lambda>a2.
        bind (get_prop args ''tripType'') (\<lambda>a3.
          Inr (Flight (getFlightSchedule a1 a2 a3)))))
      else if nm = ''get_hotel_booking'' then
        bind (get_prop args ''city'') (\<lambda>a1.
        bind (get_prop args ''nights'') (\<lambda>a2.
        bind (getHotelBooking rt a1 a2) (\<lambda>r.
          Inr (Hotel r))))
      else if nm = ''convert_currency'' then
        bind (get_prop args ''amount'') (\<lambda>a1.
        bind (get_prop args ''from'') (\<lambda>a2.
        bind (get_prop args ''to'') (\<lambda>a3.
        bind (convertCurrency rt a1 a2 a3) (\<lambda>r.
          Inr (Currency r)))))
      else Inl (Error (''Unknown tool: '' @ nm)))"

section \<open>The model endpoint\<close>

text \<open>
  The parts of the chat-completion interface the program touches. A tool call's fields
  \<^verbatim>\<open>id\<close>, \<^verbatim>\<open>type\<close> and \<^verbatim>\<open>function\<close> are \<open>call_id\<close>, \<open>call_type\<close> and
  \<open>call_function\<close>; \<open>call_function\<close> is \<open>None\<close> when the field is absent or null, the
  case \<^verbatim>\<open>!call.function\<close> tests.
\<close>

record function_call =
  name :: string
  arguments :: string

record tool_call =
  call_id :: string
  call_type :: string
  call_function :: "function_call option"

text \<open>
  The message of a reply. \<open>content\<close> is a string or null. \<open>tool_calls\<close> is \<open>None\<close> when
  the field is absent or null, and \<open>Some calls\<close> when it is an array, the empty array
  included: \<^verbatim>\<open>if (responseMessage.tool_calls)\<close> takes the first branch for every array.
\<close>

record chat_message =
  content :: "string option"
  tool_calls :: "tool_call list option"

record choice =
  message :: chat_message
  finish_reason :: string

record completion =
  choices :: "choice list"

text \<open>A message of the conversation: the user's, the model's reply, or the result of a tool.\<close>

datatype message_param =
    User string
  | Assistant chat_message
  | Tool (tool_call_id: string) (tool_content: string)

text \<open>
  The argument of \<^verbatim>\<open>openai.chat.completions.create\<close>; \<open>req_tools\<close> and
  \<open>req_tool_choice\<close> are \<open>None\<close> when the request has no such field.
\<close>

record request =
  req_model :: string
  req_messages :: "message_param list"
  req_tools :: "jsval option"
  req_tool_choice :: "string option"

definition MODEL_NAME :: string where
  "MODEL_NAME = ''nvidia/nemotron-3-nano-30b-a3b:free''"

text \<open>The tool catalogue, an object literal.\<close>

definition tools :: jsval where
  "tools = JArr [
     JObj [(''type'', JStr ''function''),
           (''function'', JObj [
              (''name'', JStr ''get_flight_schedule''),
              (''description'', JStr ''Returns flight schedule and pricing in USD''),
              (''parameters'', JObj [
                 (''type'', JStr ''object''),
                 (''properties'', JObj [
                    (''origin'', JObj [(''type'', JStr ''string'')]),
                    (''destination'', JObj [(''type'', JStr ''string'')]),
                    (''tripType'', JObj [(''type'', JStr ''string''),
                       (''enum'', JArr [JStr ''one-way'', JStr ''round-trip''])])]),
                 (''required'', JArr [JStr ''origin'', JStr ''destination'', JStr ''tripType''])])])],
     JObj [(''type'', JStr ''function''),
           (''function'', JObj [
              (''name'', JStr ''get_hotel_booking''),
              (''description'', JStr ''Returns hotel cost per night in USD''),
              (''parameters'', JObj [
                 (''type'', JStr ''object''),
                 (''properties'', JObj [
                    (''city'', JObj [(''type'', JStr ''string'')]),
                    (''nights'', JObj [(''type'', JStr ''number'')])]),
                 (''required'', JArr [JStr ''city'', JStr ''nights''])])])],
     JObj [(''type'', JStr ''function''),
           (''function'', JObj [
              (''name'', JStr ''convert_currency''),
              (''description'', JStr ''Converts an amount from one currency to another''),
              (''parameters'', JObj [
                 (''type'', JStr ''object''),
                 (''properties'', JObj [
                    (''amount'', JObj [(''type'', JStr ''number'')]),
                    (''from'', JObj [(''type'', JStr ''string'')]),
                    (''to'', JObj [(''type'', JStr ''string'')])]),
                 (''required'', JArr [JStr ''amount'', JStr ''from'', JStr ''to''])])])]]"

section \<open>The state of a run\<close>

text \<open>
  What a run changes: the conversation (the array \<^verbatim>\<open>messages\<close>), the requests sent to the
  model endpoint, oldest first, and the console, one entry for each \<^verbatim>\<open>console.log\<close>
  holding its arguments.
\<close>

datatype printed =
    PStr string
  | PContent "string option"
  | PVal jsval
  | PResult tool_result

record world =
  messages :: "message_param list"
  sent :: "request list"
  console :: "printed list list"

definition push :: "message_param \<Rightarrow> world \<Rightarrow> world" where
  "push m w = w\<lparr>messages := messages w @ [m]\<rparr>"

definition console_log :: "printed list \<Rightarrow> world \<Rightarrow> world" where
  "console_log ps w = w\<lparr>console := console w @ [ps]\<rparr>"

definition send :: "request \<Rightarrow> world \<Rightarrow> world" where
  "send r w = w\<lparr>sent := sent w @ [r]\<rparr>"

section \<open>The orchestrator\<close>

text \<open>
  A run ends with the state it reached and the error that stopped it, if one did: nothing
  in the program catches an error.

  \<open>loop_body\<close> is the body of \<^verbatim>\<open>for (const call of responseMessage.tool_calls)\<close>.
  \<^verbatim>\<open>JSON.parse(call.function.arguments)\<close> is evaluated twice, for the console and for
  the dispatcher; it has no effect and gives the same value both times.
\<close>

definition loop_body :: "runtime \<Rightarrow> world \<Rightarrow> tool_call \<Rightarrow> world \<times> error option" where
  "loop_body rt w call =
     (if call_type call \<noteq> ''function'' \<or> call_function call = None then (w, None)
      else (case call_function call of
        None \<Rightarrow> (w, None)
      | Some f \<Rightarrow>
          (let w1 = console_log [PStr (''\<newline>Calling: '' @ name f)] w
           in (case JSON_parse rt (arguments f) of
                 None \<Rightarrow> (w1, Some SyntaxError)
               | Some args \<Rightarrow>
                   (let w2 = console_log [PStr ''Arguments:'', PVal args] w1
                    in (case executeTool rt (name f) args of
                          Inl e \<Rightarrow> (w2, Some e)
                        | Inr result \<Rightarrow>
                            (let w3 = console_log [PStr ''Result:'', PResult result] w2
                             in (push (Tool (call_id call) (JSON_stringify rt result)) w3,
                                 None))))))))"

fun process_calls :: "runtime \<Rightarrow> world \<Rightarrow> tool_call list \<Rightarrow> world \<times> error option" where
  "process_calls rt w [] = (w, None)"
| "process_calls rt w (call # rest) =
     (case loop_body rt w call of
        (w', None) \<Rightarrow> process_calls rt w' rest
      | (w', Some e) \<Rightarrow> (w', Some e))"

definition user_query :: string where
  "user_query = ''I'm taking a flight from Lagos to Nairobi for a conference. I would like to know the total flight time back and forth, and the total cost of logistics for this conference if I'm staying for three days.''"

text \<open>
  \<open>create\<close> is the model endpoint: the reply to a request, \<open>None\<close> when the request
  fails. \<^verbatim>\<open>response.choices[0].message\<close> throws a TypeError when \<^verbatim>\<open>choices\<close> is empty.
\<close>

definition first_request :: request where
  "first_request =
     \<lparr> req_model = MODEL_NAME,
       req_messages = [User user_query],
       req_tools = Some tools,
       req_tool_choice = Some ''auto'' \<rparr>"

definition final_pass :: "(request \<Rightarrow> completion option) \<Rightarrow> world \<Rightarrow> world \<times> error option" where
  "final_pass create w =
     (let req = \<lparr> req_model = ''openai/gpt-4o-mini'',
                   req_messages = messages w,
                   req_tools = None,
                   req_tool_choice = None \<rparr>;
          w1 = send req w
      in (case create req of
            None \<Rightarrow> (w1, Some APIError)
          | Some response \<Rightarrow>
              (let w2 = console_log [PStr ''\<newline>Final Answer:\<newline>''] w1
               in (case choices response of
                     [] \<Rightarrow> (w2, Some TypeError)
                   | c # _ \<Rightarrow> (console_log [PContent (content (message c))] w2, None)))))"

text \<open>
  After the reply to the first request: the reply is appended to the conversation, then
  either the tool calls are run and the final pass follows, or the reply is printed.
\<close>

definition after_first :: "runtime \<Rightarrow> (request \<Rightarrow> completion option) \<Rightarrow> world \<Rightarrow> choice \<Rightarrow> world \<times> error option" where
  "after_first rt create w1 c =
     (let responseMessage = message c;
          w2 = console_log [PStr ''Model Response:''] w1;
          w3 = console_log [PStr ''Finish Reason:'', PStr (finish_reason c)] w2;
          w4 = push (Assistant responseMessage) w3
      in (case tool_calls responseMessage of
            Some calls \<Rightarrow>
              (let w5 = console_log [PStr ''\<newline>Tools Called:''] w4
               in (case process_calls rt w5 calls of
                     (w6, Some e) \<Rightarrow> (w6, Some e)
                   | (w6, None) \<Rightarrow> final_pass create w6))
          | None \<Rightarrow>
              (let w5 = console_log [PStr ''Direct Response:''] w4
               in (console_log [PContent (content responseMessage)] w5, None))))"

definition runBookingAgent ::
  "runtime \<Rightarrow> (request \<Rightarrow> completion option) \<Rightarrow> world \<times> error option" where
  "runBookingAgent rt create =
     (let w0 = \<lparr> messages = [User user_query], sent = [], console = [] \<rparr>;
          w1 = send first_request w0
      in (case create first_request of
            None \<Rightarrow> (w1, Some APIError)
          | Some response \<Rightarrow>
              (case choices response of
                 [] \<Rightarrow> (w1, Some TypeError)
               | c # _ \<Rightarrow> after_first rt create w1 c)))"

section \<open>Reading a conversation\<close>

text \<open>
  An entry of the tool-call list that the loop does not skip: its type is
  \<^verbatim>\<open>'function'\<close> and it has a \<^verbatim>\<open>function\<close> field.
\<close>

definition runnable :: "tool_call \<Rightarrow> bool" where
  "runnable call = (call_type call = ''function'' \<and> call_function call \<noteq> None)"

text \<open>
  The tool-result message the loop appends for an entry it runs: the identifier of the
  entry and the serialized result of the dispatcher on the tool name and the parsed
  arguments. There is none when the entry has no \<^verbatim>\<open>function\<close> field, when the arguments
  do not parse, and when the dispatcher throws.
\<close>

definition tool_message :: "runtime \<Rightarrow> tool_call \<Rightarrow> message_param option" where
  "tool_message rt call =
     (case call_function call of
        None \<Rightarrow> None
      | Some f \<Rightarrow>
          (case JSON_parse rt (arguments f) of
             None \<Rightarrow> None
           | Some args \<Rightarrow>
               (case executeTool rt (name f) args of
                  Inl e \<Rightarrow> None
                | Inr result \<Rightarrow> Some (Tool (call_id call) (JSON_stringify rt result)))))"

fun is_tool_result :: "message_param \<Rightarrow> bool" where
  "is_tool_result (Tool i c) = True"
| "is_tool_result m = False"

text \<open>The identifiers of the tool-result messages of a conversation, in its order.\<close>

fun result_ids :: "message_param list \<Rightarrow> string list" where
  "result_ids [] = []"
| "result_ids (Tool i c # ms) = i # result_ids ms"
| "result_ids (m # ms) = result_ids ms"

text \<open>
  The identifiers of the tool-invocation requests of a conversation, in its order: those of
  the tool calls its assistant messages carry.
\<close>

fun request_ids :: "message_param list \<Rightarrow> string list" where
  "request_ids [] = []"
| "request_ids (Assistant m # ms) =
     (case tool_calls m of None \<Rightarrow> [] | Some calls \<Rightarrow> map call_id calls) @ request_ids ms"
| "request_ids (m # ms) = request_ids ms"

text \<open>
  \<open>results_matched ms\<close>: the identifier of every tool-result message of \<open>ms\<close> is the
  identifier of exactly one tool-invocation request among the messages before it.
  \<open>matched_from earlier ms\<close> is the same for a conversation \<open>earlier @ ms\<close> whose part
  \<open>earlier\<close> has been checked.
\<close>

fun matched_from :: "message_param list \<Rightarrow> message_param list \<Rightarrow> bool" where
  "matched_from earlier [] = True"
| "matched_from earlier (m # ms) =
     ((case m of
         Tool i c \<Rightarrow> count_list (request_ids earlier) i = 1
       | _ \<Rightarrow> True)
      \<and> matched_from (earlier @ [m]) ms)"

definition results_matched :: "message_param list \<Rightarrow> bool" where
  "results_matched ms = matched_from [] ms"

text \<open>
  The tool-invocation requests of the first reply: the list \<^verbatim>\<open>tool_calls\<close> of its
  message, empty when there is no reply, no choice or no list.
\<close>

definition requested_calls :: "(request \<Rightarrow> completion option) \<Rightarrow> tool_call list" where
  "requested_calls create =
     (case create first_request of
        None \<Rightarrow> []
      | Some response \<Rightarrow>
          (case choices response of
             [] \<Rightarrow> []
           | c # _ \<Rightarrow> (case tool_calls (message c) of None \<Rightarrow> [] | Some calls \<Rightarrow> calls)))"

section \<open>Example runs\<close>

text \<open>
  A runtime for the examples. Its \<open>JSON_parse\<close> and \<open>JSON_stringify\<close> are those of
  JavaScript on the texts and results the examples use; \<open>coerce\<close> is not called in them.
\<close>

definition flight_args :: string where
  "flight_args = ''{\"origin\":\"Lagos\",\"destination\":\"Nairobi\",\"tripType\":\"round-trip\"}''"

definition hotel_args :: string where
  "hotel_args = ''{\"city\":\"Nairobi\",\"nights\":3}''"

definition example_parse :: "string \<Rightarrow> jsval option" where
  "example_parse s =
     (if s = flight_args then
        Some (JObj [(''origin'', JStr ''Lagos''), (''destination'', JStr ''Nairobi''),
                    (''tripType'', JStr ''round-trip'')])
      else if s = hotel_args then
        Some (JObj [(''city'', JStr ''Nairobi''), (''nights'', JNum (number 3))])
      else if s = ''{}'' then Some (JObj [])
      else if s = ''null'' then Some JNull
      else None)"

definition example_stringify :: "tool_result \<Rightarrow> string" where
  "example_stringify r =
     (case r of
        Flight f \<Rightarrow> ''{\"origin\":\"Lagos\",\"destination\":\"Nairobi\",\"tripType\":\"round-trip\",\"totalFlightTimeHours\":11,\"totalCostUSD\":840}''
      | Hotel h \<Rightarrow> ''{\"city\":\"Nairobi\",\"nights\":3,\"costPerNightUSD\":120,\"totalHotelCostUSD\":360}''
      | Currency c \<Rightarrow> ''{}'')"

definition example_rt :: runtime where
  "example_rt =
     \<lparr> coerce = (\<lambda>v. Inr NaN),
       JSON_parse = example_parse,
       JSON_stringify = example_stringify \<rparr>"

text \<open>
  An endpoint that answers the first request (the one for \<open>MODEL_NAME\<close>) with one
  message and every other request with another.
\<close>

definition reply :: "chat_message \<Rightarrow> completion" where
  "reply m = \<lparr> choices = [\<lparr> message = m, finish_reason = ''stop'' \<rparr>] \<rparr>"

definition scripted :: "chat_message \<Rightarrow> chat_message \<Rightarrow> request \<Rightarrow> completion option" where
  "scripted m1 m2 r = (if req_model r = MODEL_NAME then Some (reply m1) else Some (reply m2))"

definition flight_call :: tool_call where
  "flight_call =
     \<lparr> call_id = ''call_1'', call_type = ''function'',
       call_function = Some \<lparr> name = ''get_flight_schedule'', arguments = flight_args \<rparr> \<rparr>"

definition hotel_call :: tool_call where
  "hotel_call =
     \<lparr> call_id = ''call_2'', call_type = ''function'',
       call_function = Some \<lparr> name = ''get_hotel_booking'', arguments = hotel_args \<rparr> \<rparr>"

text \<open>An entry of another type, which has no \<^verbatim>\<open>function\<close> field.\<close>

definition custom_call :: tool_call where
  "custom_call = \<lparr> call_id = ''call_x'', call_type = ''custom'', call_function = None \<rparr>"

definition final_answer :: chat_message where
  "final_answer =
     \<lparr> content = Some ''Your round-trip flight will take 11 hours total and cost $840.'',
       tool_calls = None \<rparr>"

text \<open>The scenario of the README: a flight and a hotel are asked for.\<close>

definition trip_create :: "request \<Rightarrow> completion option" where
  "trip_create =
     scripted \<lparr> content = None, tool_calls = Some [flight_call, hotel_call] \<rparr> final_answer"

text \<open>The same with an entry of another type between the two.\<close>

definition mixed_create :: "request \<Rightarrow> completion option" where
  "mixed_create =
     scripted \<lparr> content = None, tool_calls = Some [flight_call, custom_call, hotel_call] \<rparr>
       final_answer"

text \<open>A reply with no list of tool calls, and one with an empty list.\<close>

definition direct_create :: "request \<Rightarrow> completion option" where
  "direct_create = scripted \<lparr> content = Some ''Hello'', tool_calls = None \<rparr> final_answer"

definition empty_list_create :: "request \<Rightarrow> completion option" where
  "empty_list_create = scripted \<lparr> content = Some ''Hello'', tool_calls = Some [] \<rparr> final_answer"

text \<open>A reply whose two tool calls carry the same identifier.\<close>

definition same_id_create :: "request \<Rightarrow> completion option" where
  "same_id_create =
     scripted \<lparr> content = None,
                tool_calls = Some [flight_call, hotel_call\<lparr>call_id := ''call_1''\<rparr>] \<rparr>
       final_answer"

section \<open>JavaScript numbers: results\<close>

text \<open>The evaluation of \<open>double\<close>: a value of the type is given by its rational.\<close>

lemma Abs_double_value [code abstype]: "Abs_double (double_value d) = d"
  by (rule double_value_inverse)

lemma representable_zero: "representable 0"
  by code_simp

lemma double_value_nearest [code abstract]:
  "double_value (nearest q) = (if representable (round64 q) then round64 q else 0)"
  using representable_zero by (simp add: nearest_def Abs_double_inverse)

lemma two_powi_less: "(2::rat) powi m < 2 powi n \<longleftrightarrow> m < n"
proof
  assume "(2::rat) powi m < 2 powi n"
  show "m < n"
  proof (rule ccontr)
    assume "\<not> m < n"
    then have "n \<le> m" by simp
    then have "(2::rat) powi n \<le> 2 powi m" by (intro power_int_increasing) simp_all
    with \<open>(2::rat) powi m < 2 powi n\<close> show False by simp
  qed
next
  assume "m < n"
  then show "(2::rat) powi m < 2 powi n" by (intro power_int_strict_increasing) simp_all
qed

lemma two_powi_le: "(2::rat) powi m \<le> 2 powi n \<longleftrightarrow> m \<le> n"
  using two_powi_less [of n m] by (simp add: not_less [symmetric])

lemma two_powi_add: "(2::rat) powi (m + n) = 2 powi m * 2 powi n"
  by (simp add: power_int_add)

lemma two_powi_diff: "(2::rat) powi (m - n) = 2 powi m / 2 powi n"
  by (simp add: power_int_diff)

lemma bitlen_pow_bounds:
  assumes "0 < (a::int)"
  shows "(2::rat) powi (bitlen a - 1) \<le> of_int a" "of_int a < (2::rat) powi bitlen a"
proof -
  from bitlen_bounds [OF assms] have 1: "2 ^ nat (bitlen a - 1) \<le> a" and 2: "a < 2 ^ nat (bitlen a)"
    by simp_all
  have pos: "0 < bitlen a"
    using assms bitlen_nonneg [of a] bitlen_eq_zero_iff [of a] by linarith
  from 1 have "(of_int (2 ^ nat (bitlen a - 1)) :: rat) \<le> of_int a" by (simp only: of_int_le_iff)
  then show "(2::rat) powi (bitlen a - 1) \<le> of_int a"
    using pos by (simp add: power_int_def)
  from 2 have "(of_int a :: rat) < of_int (2 ^ nat (bitlen a))" by (simp only: of_int_less_iff)
  then show "of_int a < (2::rat) powi bitlen a"
    using pos by (simp add: power_int_def)
qed

lemma floor_log2_bounds:
  assumes "q \<noteq> 0"
  shows "2 powi floor_log2 q \<le> \<bar>q\<bar>" "\<bar>q\<bar> < 2 powi (floor_log2 q + 1)"
proof -
  obtain a b where ab: "quotient_of \<bar>q\<bar> = (a, b)" by (cases "quotient_of \<bar>q\<bar>")
  then have b: "0 < b" and q: "\<bar>q\<bar> = of_int a / of_int b"
    by (simp_all add: quotient_of_denom_pos quotient_of_div)
  have "0 < \<bar>q\<bar>" using assms by simp
  with q b have a: "0 < a" by (simp add: zero_less_divide_iff)
  let ?d = "bitlen a - bitlen b"
  note A = bitlen_pow_bounds [OF a] and B = bitlen_pow_bounds [OF b]
  have bpos: "(0::rat) < of_int b" using b by simp
  have up: "\<bar>q\<bar> < 2 powi (?d + 1)"
  proof -
    have "of_int a / of_int b < (2::rat) powi bitlen a / 2 powi (bitlen b - 1)"
      using A(2) B(1) a
      by (intro frac_less) simp_all
    also have "\<dots> = 2 powi (?d + 1)"
      by (simp add: two_powi_diff two_powi_add)
    finally show ?thesis by (simp add: q)
  qed
  have lo: "2 powi (?d - 1) \<le> \<bar>q\<bar>"
  proof -
    have "(2::rat) powi (bitlen a - 1) / 2 powi bitlen b \<le> of_int a / of_int b"
      using A(1) B(2) bpos a
      by (intro frac_le) (auto intro: less_imp_le)
    moreover have "(2::rat) powi (bitlen a - 1) / 2 powi bitlen b = 2 powi (?d - 1)"
      by (simp add: two_powi_diff)
    ultimately show ?thesis by (simp add: q)
  qed
  show "2 powi floor_log2 q \<le> \<bar>q\<bar>"
    using lo by (simp add: floor_log2_def ab Let_def)
  show "\<bar>q\<bar> < 2 powi (floor_log2 q + 1)"
    using up by (auto simp add: floor_log2_def ab Let_def not_le)
qed

lemma floor_log2_eqI:
  assumes "2 powi e \<le> \<bar>q\<bar>" "\<bar>q\<bar> < 2 powi (e + 1)"
  shows "floor_log2 q = e"
proof -
  have "(0::rat) < 2 powi e" by simp
  also note assms(1)
  finally have "q \<noteq> 0" by auto
  note b = floor_log2_bounds [OF this]
  have "(2::rat) powi e < 2 powi (floor_log2 q + 1)" using assms(1) b(2) by simp
  then have 1: "e < floor_log2 q + 1" by (simp add: two_powi_less)
  have "(2::rat) powi floor_log2 q < 2 powi (e + 1)" using assms(2) b(1) by simp
  then have 2: "floor_log2 q < e + 1" by (simp add: two_powi_less)
  from 1 2 show ?thesis by simp
qed

text \<open>The exponent test of \<open>representable\<close> is the range of binary64.\<close>

lemma floor_log2_less_iff:
  assumes "q \<noteq> 0"
  shows "floor_log2 q < n \<longleftrightarrow> \<bar>q\<bar> < 2 powi n"
proof
  assume "floor_log2 q < n"
  then have "floor_log2 q + 1 \<le> n" by simp
  then have "(2::rat) powi (floor_log2 q + 1) \<le> 2 powi n" by (simp only: two_powi_le)
  with floor_log2_bounds(2) [OF assms] show "\<bar>q\<bar> < 2 powi n" by simp
next
  assume "\<bar>q\<bar> < 2 powi n"
  with floor_log2_bounds(1) [OF assms] have "(2::rat) powi floor_log2 q < 2 powi n" by simp
  then show "floor_log2 q < n" by (simp only: two_powi_less)
qed

lemma representable_iff:
  "representable q \<longleftrightarrow> round64 q = q \<and> \<bar>q\<bar> < 2 ^ 1024"
proof (cases "q = 0")
  case True
  with representable_zero show ?thesis by (simp add: round64_def)
next
  case False
  from floor_log2_less_iff [OF False, of 1024] show ?thesis
    by (simp add: representable_def)
qed

lemma round_half_even_of_int: "round_half_even (of_int z) = z"
  by (simp add: round_half_even_def)

lemma round_half_even_cases: "round_half_even x = \<lfloor>x\<rfloor> \<or> round_half_even x = \<lfloor>x\<rfloor> + 1"
  by (simp add: round_half_even_def Let_def)

lemma round_half_even_ge: "of_int z \<le> x \<Longrightarrow> z \<le> round_half_even x"
  using round_half_even_cases [of x] le_floor_iff [of z x] by linarith

lemma round_half_even_le:
  assumes "x \<le> of_int z"
  shows "round_half_even x \<le> z"
proof (cases "x = of_int z")
  case True
  then show ?thesis by (simp add: round_half_even_of_int)
next
  case False
  with assms have "x < of_int z" by simp
  then have "\<lfloor>x\<rfloor> < z" by (simp add: floor_less_iff)
  with round_half_even_cases [of x] show ?thesis by linarith
qed

lemma round_half_even_minus: "round_half_even (- x) = - round_half_even x"
proof (cases "x = of_int \<lfloor>x\<rfloor>")
  case True
  then obtain z where "x = of_int z" ..
  then have "- x = of_int (- z)" by simp
  with \<open>x = of_int z\<close> show ?thesis by (simp only: round_half_even_of_int)
next
  case False
  then have fl: "\<lfloor>- x\<rfloor> = - \<lfloor>x\<rfloor> - 1"
    by (metis ceiling_altdef ceiling_def diff_minus_eq_add minus_diff_eq neg_equal_iff_equal add_diff_cancel uminus_add_conv_diff)
  show ?thesis
    using False by (auto simp: round_half_even_def Let_def fl)
qed

lemma floor_log2_minus: "floor_log2 (- q) = floor_log2 q"
  by (simp add: floor_log2_def)

lemma ulp_exponent_minus: "ulp_exponent (- q) = ulp_exponent q"
  by (simp add: ulp_exponent_def floor_log2_minus)

lemma round64_minus: "round64 (- q) = - round64 q"
  by (simp add: round64_def ulp_exponent_minus round_half_even_minus)

text \<open>A multiple of its own unit in the last place is left as it is.\<close>

lemma round64_integral:
  assumes "r / 2 powi ulp_exponent r = of_int z"
  shows "round64 r = r"
proof (cases "r = 0")
  case True
  then show ?thesis by (simp add: round64_def)
next
  case False
  have "of_int z * 2 powi ulp_exponent r = r"
    using assms [symmetric] by simp
  with False show ?thesis by (simp add: round64_def assms round_half_even_of_int)
qed

text \<open>Natural numbers below \<open>2 ^ (53 + j)\<close> that \<open>2 ^ j\<close> divides are representable.\<close>

lemma representable_nat:
  fixes k j :: nat
  assumes "k < 2 ^ (53 + j)" and "2 ^ j dvd k" and "j \<le> 971"
  shows "representable (of_nat k)"
proof (cases "k = 0")
  case True
  with representable_zero show ?thesis by simp
next
  case False
  let ?q = "of_nat k :: rat"
  have nz: "?q \<noteq> 0" using False by simp
  have "?q < of_nat (2 ^ (53 + j))" using assms(1) by (simp only: of_nat_less_iff)
  also have "(of_nat (2 ^ (53 + j)) :: rat) = 2 powi int (53 + j)"
    by (simp only: of_nat_power of_nat_numeral power_int_of_nat)
  finally have hi: "\<bar>?q\<bar> < 2 powi int (53 + j)" by simp
  with floor_log2_less_iff [OF nz] have e: "floor_log2 ?q < int (53 + j)" by simp
  then have p: "ulp_exponent ?q \<le> int j" by (simp add: ulp_exponent_def)
  have "\<exists>z. ?q / 2 powi ulp_exponent ?q = of_int z"
  proof (cases "ulp_exponent ?q \<le> 0")
    case True
    then obtain i :: nat where i: "ulp_exponent ?q = - int i"
      by (metis nat_0_le neg_0_le_iff_le minus_minus)
    have "?q / 2 powi (- int i) = of_int (int k * 2 ^ i)"
      by (simp add: power_int_minus field_simps)
    with i show ?thesis by metis
  next
    case False
    then obtain i :: nat where i: "ulp_exponent ?q = int i" "0 < i"
      by (metis nat_0_le not_le less_imp_le zero_less_nat_eq)
    with p have "i \<le> j" by simp
    then have "(2::nat) ^ i dvd 2 ^ j" by (rule le_imp_power_dvd)
    from this assms(2) have "2 ^ i dvd k" by (rule dvd_trans)
    then obtain c where c: "k = 2 ^ i * c" ..
    have "?q / 2 powi int i = of_int (int c)"
      by (simp add: c)
    with i show ?thesis by metis
  qed
  then obtain z where "?q / 2 powi ulp_exponent ?q = of_int z" ..
  then have "round64 ?q = ?q" by (rule round64_integral)
  moreover from e assms(3) have "floor_log2 ?q < 1024" by simp
  ultimately show ?thesis by (simp add: representable_def)
qed

lemma round64_pos_idem:
  assumes "0 < q"
  shows "round64 (round64 q) = round64 q"
proof -
  define e where "e = floor_log2 q"
  define p where "p = ulp_exponent q"
  define x where "x = q / 2 powi p"
  define m where "m = round_half_even x"
  define r :: rat where "r = of_int m * 2 powi p"
  have r: "round64 q = r"
    using assms by (simp add: round64_def r_def m_def x_def p_def)
  from floor_log2_bounds [of q] assms
  have lo: "2 powi e \<le> q" and hi: "q < 2 powi (e + 1)"
    by (simp_all add: e_def)
  have pp: "(0::rat) < 2 powi p" by simp
  have xlo: "2 powi (e - p) \<le> x"
    unfolding x_def two_powi_diff using lo pp by (simp add: divide_right_mono)
  have xhi: "x < 2 powi (e + 1 - p)"
    unfolding x_def two_powi_diff using hi pp by (simp add: divide_strict_right_mono)
  have "0 \<le> x" using assms pp by (simp add: x_def)
  then have m0: "0 \<le> m" unfolding m_def using round_half_even_ge [of 0 x] by simp
  have p_def': "p = max (e - 52) (- 1074)" by (simp add: p_def ulp_exponent_def e_def)
  show ?thesis
  proof (cases "m = 0")
    case True
    then have "r = 0" by (simp add: r_def)
    then have "round64 r = r" by (simp add: round64_def)
    then show ?thesis by (simp only: r)
  next
    case False
    with m0 have mpos: "0 < m" by simp
    then have rpos: "0 < r" by (simp add: r_def)
    have "\<exists>z. r / 2 powi ulp_exponent r = of_int z"
    proof (cases "- 1074 \<le> e - 52")
      case True
      then have p: "p = e - 52" by (simp add: p_def')
      from xlo have "of_int (2 ^ 52) \<le> x" by (simp add: p)
      then have mlo: "2 ^ 52 \<le> m" unfolding m_def by (rule round_half_even_ge)
      from xhi have "x \<le> of_int (2 ^ 53)" by (simp add: p)
      then have mhi: "m \<le> 2 ^ 53" unfolding m_def by (rule round_half_even_le)
      show ?thesis
      proof (cases "m = 2 ^ 53")
        case False
        with mhi have mlt: "m < 2 ^ 53" by simp
        have "2 powi e = (2::rat) powi 52 * 2 powi p"
          using two_powi_add [of 52 p] by (simp add: p)
        also have "\<dots> \<le> of_int m * 2 powi p"
          using mlo
          by (intro mult_right_mono)
            (simp_all add: of_int_le_iff [of "2 ^ 52" m, where 'a = rat, simplified])
        finally have 1: "2 powi e \<le> \<bar>r\<bar>" using rpos by (simp add: r_def)
        have "of_int m * 2 powi p < (2::rat) powi 53 * 2 powi p"
          using mlt
          by (intro mult_strict_right_mono)
            (simp_all add: of_int_less_iff [of m "2 ^ 53", where 'a = rat, simplified])
        also have "\<dots> = 2 powi (e + 1)"
          using two_powi_add [of 53 p] by (simp add: p add.commute)
        finally have 2: "\<bar>r\<bar> < 2 powi (e + 1)" using rpos by (simp add: r_def)
        from floor_log2_eqI [OF 1 2] have "ulp_exponent r = p"
          by (simp add: ulp_exponent_def p_def')
        then have "r / 2 powi ulp_exponent r = of_int m" by (simp add: r_def)
        then show ?thesis ..
      next
        case m: True
        have rv: "r = 2 powi (e + 1)"
          using two_powi_add [of 53 p] by (simp add: r_def m p add.commute)
        have "floor_log2 r = e + 1"
          by (rule floor_log2_eqI) (simp_all add: rv two_powi_le two_powi_less)
        then have "ulp_exponent r = p + 1" using True by (simp add: ulp_exponent_def p)
        then have "r / 2 powi ulp_exponent r = of_int (2 ^ 52)"
          using two_powi_diff [of "e + 1" "p + 1"] by (simp add: rv p)
        then show ?thesis ..
      qed
    next
      case False
      then have p: "p = - 1074" by (simp add: p_def')
      from False have "e + 1 - p \<le> 52" by (simp add: p)
      then have "(2::rat) powi (e + 1 - p) \<le> 2 powi 52" by (simp only: two_powi_le)
      with xhi have "x \<le> of_int (2 ^ 52)" by simp
      then have mhi: "m \<le> 2 ^ 52" unfolding m_def by (rule round_half_even_le)
      have "r \<le> (2::rat) powi 52 * 2 powi p"
        unfolding r_def using mhi
        by (intro mult_right_mono)
          (simp_all add: of_int_le_iff [of m "2 ^ 52", where 'a = rat, simplified])
      also have "\<dots> = 2 powi (- 1022)" using two_powi_add [of 52 p] by (simp add: p)
      finally have rhi: "r \<le> 2 powi (- 1022)" .
      have "r \<noteq> 0" using rpos by simp
      from floor_log2_bounds(1) [OF this] rpos have "2 powi floor_log2 r \<le> r" by simp
      with rhi have "(2::rat) powi floor_log2 r \<le> 2 powi (- 1022)" by simp
      then have "floor_log2 r \<le> - 1022" by (simp only: two_powi_le)
      then have "ulp_exponent r = p" by (simp add: ulp_exponent_def p)
      then have "r / 2 powi ulp_exponent r = of_int m" by (simp add: r_def)
      then show ?thesis ..
    qed
    then obtain z where "r / 2 powi ulp_exponent r = of_int z" ..
    then have "round64 r = r" by (rule round64_integral)
    then show ?thesis by (simp add: r)
  qed
qed

text \<open>Rounding twice is rounding once: what \<open>round64\<close> returns is a binary64 value when it is in range.\<close>

lemma round64_idem: "round64 (round64 q) = round64 q"
proof (cases "0 < q")
  case True
  then show ?thesis by (rule round64_pos_idem)
next
  case False
  show ?thesis
  proof (cases "q = 0")
    case True
    then show ?thesis by (simp add: round64_def)
  next
    case nz: False
    with False have "0 < - q" by simp
    from round64_pos_idem [OF this] show ?thesis by (simp add: round64_minus)
  qed
qed

lemma representable_round64:
  "representable (round64 q) \<longleftrightarrow> floor_log2 (round64 q) < 1024"
  by (simp add: representable_def round64_idem)

text \<open>A representable value is the value of its number.\<close>

lemma number_representable:
  assumes "representable q"
  shows "number q = Num (nearest q)" and "double_value (nearest q) = q"
    and "value_of (number q) = Some q"
proof -
  from assms have r: "round64 q = q" "floor_log2 q < 1024" by (simp_all add: representable_def)
  show 1: "number q = Num (nearest q)" using r by (auto simp: number_def)
  show 2: "double_value (nearest q) = q" using r assms by (simp add: double_value_nearest)
  from 1 2 show "value_of (number q) = Some q" by simp
qed

text \<open>
  The product of two finite numbers other than zero is the number nearest to the exact
  product.
\<close>

lemma js_times_number:
  assumes "representable a" "representable b" "a \<noteq> 0" "b \<noteq> 0"
  shows "js_times (number a) (number b) = number (a * b)"
  using assms
  by (simp add: js_times_def number_representable)

lemma double_eqI: "double_value d = double_value d' \<Longrightarrow> d = d'"
  by (simp add: double_value_inject)

lemma number_double_value: "number (double_value d) = Num d"
proof -
  have rep: "representable (double_value d)" using double_value [of d] by simp
  have "nearest (double_value d) = d"
    by (rule double_eqI) (simp add: number_representable(2) [OF rep])
  with number_representable(1) [OF rep] show ?thesis by simp
qed

text \<open>Multiplying by one changes no number.\<close>

lemma js_times_one: "js_times x (number 1) = x"
proof -
  have rep: "representable 1" using representable_nat [of 1 0] by simp
  note one = number_representable [OF rep]
  have zero: "number 0 = Num (nearest 0)" "double_value (nearest 0) = 0"
    using number_representable [OF representable_zero] by simp_all
  show ?thesis
  proof (cases x)
    case (Num d)
    show ?thesis
    proof (cases "double_value d = 0")
      case True
      then have "d = nearest 0" by (intro double_eqI) (simp add: zero)
      with True show ?thesis by (simp add: js_times_def Num one zero)
    next
      case False
      then show ?thesis by (simp add: js_times_def Num one(1,2) number_double_value)
    qed
  qed (simp_all add: js_times_def one)
qed


text \<open>The numbers of the program and of the examples, and their products.\<close>

lemma representable_small:
  "representable 1" "representable 2" "representable 3" "representable 11"
  "representable 120" "representable 360" "representable 420" "representable 840"
  using representable_nat [of 1 0] representable_nat [of 2 0] representable_nat [of 3 0]
    representable_nat [of 11 0] representable_nat [of 120 0] representable_nat [of 360 0]
    representable_nat [of 420 0] representable_nat [of 840 0]
  by simp_all

lemma representable_half: "representable (11 / 2)"
  by code_simp

lemma program_numbers:
  "value_of (number (11 / 2)) = Some (11 / 2)" "value_of (number 11) = Some 11"
  "value_of (number 420) = Some 420" "value_of (number 840) = Some 840"
  "value_of (number 120) = Some 120" "value_of (number 360) = Some 360"
  "value_of (number 3) = Some 3" "value_of (number 2) = Some 2"
  "value_of (number 1) = Some 1" "value_of (number 0) = Some 0"
  by (simp_all add: number_representable representable_small representable_half
      representable_zero)

lemma program_products:
  "js_times (number (11 / 2)) (number 2) = number 11"
  "js_times (number 420) (number 2) = number 840"
  "js_times (number 120) (number 3) = number 360"
  using js_times_number [of "11 / 2" 2] js_times_number [of 420 2] js_times_number [of 120 3]
  by (simp_all add: representable_small representable_half)

lemma times_zero: "js_times (number 120) (number 0) = number 0"
  by (simp add: js_times_def number_representable representable_small representable_zero)

text \<open>What the evaluation of an example run unfolds.\<close>

lemmas evaluate =
  runBookingAgent_def after_first_def final_pass_def loop_body_def executeTool_def
  getFlightSchedule_def getHotelBooking_def convertCurrency_def property_def
  send_def push_def console_log_def first_request_def MODEL_NAME_def Let_def
  requested_calls_def runnable_def results_matched_def tool_message_def
  example_rt_def example_parse_def example_stringify_def flight_args_def hotel_args_def
  reply_def scripted_def flight_call_def hotel_call_def custom_call_def
  trip_create_def mixed_create_def direct_create_def empty_list_create_def same_id_create_def
  program_products

section \<open>The tool implementations: results\<close>

text \<open>
  Claim C1. For every origin and destination, the flight lookup with trip type
  \<^verbatim>\<open>"round-trip"\<close> returns a total flight time of 11 hours and a total cost of 840 USD,
  each the double of what it returns for \<^verbatim>\<open>"one-way"\<close>.
\<close>

theorem flight_round_trip:
  "totalFlightTimeHours (getFlightSchedule org dst (JStr ''round-trip'')) = number 11
   \<and> totalCostUSD (getFlightSchedule org dst (JStr ''round-trip'')) = number 840
   \<and> totalFlightTimeHours (getFlightSchedule org dst (JStr ''round-trip''))
       = js_times (totalFlightTimeHours (getFlightSchedule org dst (JStr ''one-way'')))
           (number 2)
   \<and> totalCostUSD (getFlightSchedule org dst (JStr ''round-trip''))
       = js_times (totalCostUSD (getFlightSchedule org dst (JStr ''one-way''))) (number 2)
   \<and> value_of (number 11) = Some 11
   \<and> value_of (number 840) = Some 840"
  by (simp add: getFlightSchedule_def program_products program_numbers)

text \<open>
  Claim C2. For every origin and destination and every trip type other than the string
  \<^verbatim>\<open>"round-trip"\<close> (another string, or a value that is no string), the flight lookup
  returns the one-way constants: 5.5 hours and 420 USD.
\<close>

theorem flight_one_way:
  "tt \<noteq> JStr ''round-trip'' \<Longrightarrow>
   totalFlightTimeHours (getFlightSchedule org dst tt) = number 5.5
   \<and> totalCostUSD (getFlightSchedule org dst tt) = number 420
   \<and> value_of (number 5.5) = Some 5.5
   \<and> value_of (number 420) = Some 420"
  by (simp add: getFlightSchedule_def program_numbers)

text \<open>The trip types \<^verbatim>\<open>"one-way"\<close>, \<^verbatim>\<open>"round trip"\<close> (a typo) and the empty string.\<close>

theorem flight_one_way_witness:
  "JStr ''one-way'' \<noteq> JStr ''round-trip''
   \<and> totalFlightTimeHours
        (getFlightSchedule (JStr ''Lagos'') (JStr ''Nairobi'') (JStr ''one-way'')) = number 5.5
   \<and> totalCostUSD
        (getFlightSchedule (JStr ''Lagos'') (JStr ''Nairobi'') (JStr ''one-way'')) = number 420
   \<and> JStr ''round trip'' \<noteq> JStr ''round-trip''
   \<and> totalCostUSD
        (getFlightSchedule (JStr ''Lagos'') (JStr ''Nairobi'') (JStr ''round trip'')) = number 420
   \<and> JStr [] \<noteq> JStr ''round-trip''
   \<and> totalFlightTimeHours
        (getFlightSchedule (JStr ''Lagos'') (JStr ''Nairobi'') (JStr [])) = number 5.5"
  using flight_one_way [of "JStr ''one-way''" "JStr ''Lagos''" "JStr ''Nairobi''"]
    flight_one_way [of "JStr ''round trip''" "JStr ''Lagos''" "JStr ''Nairobi''"]
    flight_one_way [of "JStr []" "JStr ''Lagos''" "JStr ''Nairobi''"]
  by simp

text \<open>
  Claim C3, as stated: for every non-negative integer \<open>n\<close> the hotel lookup returns the
  total cost \<open>120 * n\<close>. The total is the product of two binary64 values, rounded to
  binary64. For 9007199254740991 nights, which is \<open>2 ^ 53 - 1\<close>, it is
  1080863910568918912 and not 1080863910568918920; the first number of nights for which
  it is not \<open>120 * n\<close> is 600479950316067, where it is 72057594037928032 and not
  72057594037928040.
\<close>

theorem hotel_total_counterexample:
  "value_of (number 9007199254740991) = Some 9007199254740991
   \<and> getHotelBooking example_rt (JStr ''Nairobi'') (JNum (number 9007199254740991)) =
       Inr \<lparr> city = JStr ''Nairobi'', nights = JNum (number 9007199254740991),
             costPerNightUSD = number 120, totalHotelCostUSD = number 1080863910568918912 \<rparr>
   \<and> value_of (number 1080863910568918912) = Some 1080863910568918912
   \<and> (1080863910568918912 :: rat) \<noteq> 120 * 9007199254740991
   \<and> value_of (number 600479950316067) = Some 600479950316067
   \<and> getHotelBooking example_rt (JStr ''Nairobi'') (JNum (number 600479950316067)) =
       Inr \<lparr> city = JStr ''Nairobi'', nights = JNum (number 600479950316067),
             costPerNightUSD = number 120, totalHotelCostUSD = number 72057594037928032 \<rparr>
   \<and> value_of (number 72057594037928032) = Some 72057594037928032
   \<and> (72057594037928032 :: rat) \<noteq> 120 * 600479950316067"
  by code_simp

text \<open>
  Claim C3, amended. For every city and every number of nights \<open>n\<close> up to
  600479950316066, which are the \<open>n\<close> with \<open>120 * n < 2 ^ 56\<close>, the hotel lookup returns
  the nightly rate 120 and the total cost \<open>120 * n\<close>, exactly. For every natural number
  of nights that is a binary64 value the total is the binary64 value nearest to
  \<open>120 * n\<close>.
\<close>

theorem hotel_total:
  "(representable (of_nat n) \<longrightarrow>
      getHotelBooking rt c (JNum (number (of_nat n))) =
        Inr \<lparr> city = c, nights = JNum (number (of_nat n)), costPerNightUSD = number 120,
              totalHotelCostUSD = number (120 * of_nat n) \<rparr>)
   \<and> (n \<le> 600479950316066 \<longrightarrow>
        representable (of_nat n)
        \<and> value_of (number (of_nat n)) = Some (of_nat n)
        \<and> value_of (number (120 * of_nat n)) = Some (120 * of_nat n))
   \<and> value_of (number 120) = Some 120"
proof -
  note r120 = representable_small(5)
  have 1: "getHotelBooking rt c (JNum (number (of_nat n))) =
        Inr \<lparr> city = c, nights = JNum (number (of_nat n)), costPerNightUSD = number 120,
              totalHotelCostUSD = number (120 * of_nat n) \<rparr>"
    if "representable (of_nat n)"
  proof (cases "n = 0")
    case True
    then show ?thesis by (simp add: getHotelBooking_def times_zero)
  next
    case False
    with that r120 have "js_times (number 120) (number (of_nat n)) = number (120 * of_nat n)"
      by (intro js_times_number) simp_all
    then show ?thesis by (simp add: getHotelBooking_def)
  qed
  have 2: "representable (of_nat n) \<and> value_of (number (of_nat n)) = Some (of_nat n)
        \<and> value_of (number (120 * of_nat n)) = Some (120 * of_nat n)"
    if "n \<le> 600479950316066"
  proof -
    from that have "n < 2 ^ (53 + 0)" by simp
    then have rn: "representable (of_nat n)" by (rule representable_nat) simp_all
    from that have "120 * n < 2 ^ (53 + 3)" by simp
    moreover have "(2::nat) ^ 3 dvd 120 * n" by simp
    ultimately have "representable (of_nat (120 * n))" by (rule representable_nat) simp
    then have rt: "representable (120 * of_nat n)" by simp
    from rn rt show ?thesis by (simp add: number_representable)
  qed
  from 1 2 show ?thesis by (simp add: program_numbers)
qed

text \<open>Three nights cost 360.\<close>

theorem hotel_total_witness:
  "representable 3
   \<and> getHotelBooking example_rt (JStr ''Nairobi'') (JNum (number 3)) =
       Inr \<lparr> city = JStr ''Nairobi'', nights = JNum (number 3), costPerNightUSD = number 120,
             totalHotelCostUSD = number 360 \<rparr>
   \<and> value_of (number 3) = Some 3
   \<and> value_of (number 360) = Some 360"
proof -
  have "(3::nat) \<le> 600479950316066" by simp
  with hotel_total [of 3 example_rt "JStr ''Nairobi''"] show ?thesis by simp
qed

text \<open>
  Claim C4. For every number \<open>x\<close> (\<open>NaN\<close>, the infinities and negative zero included) and
  all currency codes, the currency conversion returns the converted amount \<open>x\<close>, the
  original amount \<open>x\<close>, and the two codes as they were given.
\<close>

theorem convert_identity:
  "convertCurrency rt (JNum x) frm t =
     Inr \<lparr> from_code = frm, to_code = t, originalAmount = JNum x, convertedAmount = x \<rparr>"
  by (simp add: convertCurrency_def js_times_one)

theorem convert_identity_witness:
  "convertCurrency example_rt (JNum (number 840)) (JStr ''USD'') (JStr ''KES'') =
     Inr \<lparr> from_code = JStr ''USD'', to_code = JStr ''KES'',
           originalAmount = JNum (number 840), convertedAmount = number 840 \<rparr>"
  using convert_identity [of example_rt "number 840" "JStr ''USD''" "JStr ''KES''"] by simp

section \<open>The dispatcher: results\<close>

lemma bind_map_sum: "bind x (\<lambda>r. Inr (f r)) = map_sum id f x"
  by (cases x) simp_all

text \<open>
  Claim C5. On a name that is none of the three registered ones the dispatcher throws the
  error \<^verbatim>\<open>Unknown tool\<close> and returns nothing, whatever the arguments. On each registered
  name and an argument object it is the corresponding tool implementation on the
  properties of the object, its result returned and its error passed on.
\<close>

theorem dispatch:
  "(nm \<notin> {''get_flight_schedule'', ''get_hotel_booking'', ''convert_currency''} \<longrightarrow>
      executeTool rt nm args = Inl (Error (''Unknown tool: '' @ nm)))
   \<and> executeTool rt ''get_flight_schedule'' (JObj kvs) =
       Inr (Flight (getFlightSchedule (property kvs ''origin'') (property kvs ''destination'')
              (property kvs ''tripType'')))
   \<and> executeTool rt ''get_hotel_booking'' (JObj kvs) =
       map_sum id Hotel (getHotelBooking rt (property kvs ''city'') (property kvs ''nights''))
   \<and> executeTool rt ''convert_currency'' (JObj kvs) =
       map_sum id Currency (convertCurrency rt (property kvs ''amount'') (property kvs ''from'')
         (property kvs ''to''))"
  by (simp add: executeTool_def bind_map_sum)

theorem dispatch_witness:
  "''book_car'' \<notin> {''get_flight_schedule'', ''get_hotel_booking'', ''convert_currency''}
   \<and> executeTool example_rt ''book_car'' (JObj []) = Inl (Error ''Unknown tool: book_car'')
   \<and> executeTool example_rt ''get_hotel_booking''
        (JObj [(''city'', JStr ''Nairobi''), (''nights'', JNum (number 3))]) =
       Inr (Hotel \<lparr> city = JStr ''Nairobi'', nights = JNum (number 3),
                    costPerNightUSD = number 120, totalHotelCostUSD = number 360 \<rparr>)"
  using dispatch [of "''book_car''" example_rt "JObj []"
      "[(''city'', JStr ''Nairobi''), (''nights'', JNum (number 3))]"]
  by (simp add: property_def getHotelBooking_def program_products)

section \<open>The tool loop\<close>

lemma result_ids_append: "result_ids (xs @ ys) = result_ids xs @ result_ids ys"
  by (induction xs rule: result_ids.induct) simp_all

lemma request_ids_append: "request_ids (xs @ ys) = request_ids xs @ request_ids ys"
  by (induction xs rule: request_ids.induct) simp_all

lemma result_ids_no_tool: "list_all (\<lambda>m. \<not> is_tool_result m) ms \<Longrightarrow> result_ids ms = []"
  by (induction ms rule: result_ids.induct) simp_all

lemma filter_tool_results:
  "list_all (\<lambda>m. \<not> is_tool_result m) pre \<Longrightarrow> list_all is_tool_result rs \<Longrightarrow>
   filter is_tool_result (pre @ rs) = rs"
  by (induction pre) (simp_all add: list_all_iff)

lemma tool_message_id:
  "tool_message rt call = Some m \<Longrightarrow> \<exists>c. m = Tool (call_id call) c"
  by (auto simp: tool_message_def split: option.splits sum.splits)

text \<open>Messages that answer a list of entries one by one carry their identifiers.\<close>

lemma answered_ids:
  "map Some rs = map (tool_message rt) cs \<Longrightarrow>
   list_all is_tool_result rs \<and> result_ids rs = map call_id cs"
proof (induction rs arbitrary: cs)
  case Nil
  then show ?case by simp
next
  case (Cons r rs)
  then obtain c cs' where cs: "cs = c # cs'" by (cases cs) simp_all
  with Cons.prems have "tool_message rt c = Some r" "map Some rs = map (tool_message rt) cs'"
    by simp_all
  with tool_message_id [of rt c r] Cons.IH [of cs'] cs show ?case by auto
qed

text \<open>An entry that is not runnable leaves the state as it is.\<close>

lemma loop_body_skip: "\<not> runnable call \<Longrightarrow> loop_body rt w call = (w, None)"
  by (auto simp: loop_body_def runnable_def)

text \<open>
  A runnable entry sends no request; it appends its tool-result message when it succeeds,
  and no message when it throws.
\<close>

lemma loop_body_runnable:
  assumes "runnable call" and "loop_body rt w call = (w', e)"
  shows "sent w' = sent w
    \<and> (case e of
          None \<Rightarrow> (\<exists>m. tool_message rt call = Some m \<and> messages w' = messages w @ [m])
        | Some err \<Rightarrow> tool_message rt call = None \<and> messages w' = messages w)"
  using assms
  by (auto simp: loop_body_def runnable_def tool_message_def Let_def push_def console_log_def
      split: option.splits sum.splits)

text \<open>Whether an entry throws, and what, does not depend on the state.\<close>

lemma loop_body_error_indep: "snd (loop_body rt w call) = snd (loop_body rt w' call)"
  by (auto simp: loop_body_def Let_def split: option.splits sum.splits)

lemma process_calls_error_indep:
  "snd (process_calls rt w calls) = snd (process_calls rt w' calls)"
proof (induction calls arbitrary: w w')
  case Nil
  show ?case by simp
next
  case (Cons call rest)
  obtain u e where 1: "loop_body rt w call = (u, e)" by (cases "loop_body rt w call")
  obtain u' e' where 2: "loop_body rt w' call = (u', e')" by (cases "loop_body rt w' call")
  from loop_body_error_indep [of rt w call w'] 1 2 have "e = e'" by simp
  with 1 2 Cons.IH [of u u'] show ?case by (cases e') simp_all
qed

text \<open>The loop over \<open>xs @ ys\<close> is the loop over \<open>xs\<close>, then, unless it threw, over \<open>ys\<close>.\<close>

lemma process_calls_append:
  "process_calls rt w (xs @ ys) =
     (case process_calls rt w xs of
        (w', None) \<Rightarrow> process_calls rt w' ys
      | (w', Some e) \<Rightarrow> (w', Some e))"
  by (induction xs arbitrary: w) (auto split: prod.splits option.splits)

text \<open>
  The loop sends no request. It appends the tool-result messages of an initial segment of
  the runnable entries, one for each and in the order of the list, and of all of them
  exactly when it does not throw.
\<close>

lemma process_calls_effect:
  "process_calls rt w calls = (w', e) \<Longrightarrow>
     sent w' = sent w
     \<and> (\<exists>rs. messages w' = messages w @ rs
            \<and> map Some rs = map (tool_message rt) (take (length rs) (filter runnable calls))
            \<and> (e = None \<longleftrightarrow> length rs = length (filter runnable calls)))"
proof (induction calls arbitrary: w)
  case Nil
  then show ?case by simp
next
  case (Cons call rest)
  obtain u eo where body: "loop_body rt w call = (u, eo)" by (cases "loop_body rt w call")
  show ?case
  proof (cases "runnable call")
    case False
    with body have "u = w" "eo = None" by (simp_all add: loop_body_skip)
    with Cons.prems body have "process_calls rt w rest = (w', e)" by simp
    from Cons.IH [OF this] False show ?thesis by simp
  next
    case True
    note run = loop_body_runnable [OF True body]
    show ?thesis
    proof (cases eo)
      case (Some err)
      with Cons.prems body have "w' = u" "e = Some err" by simp_all
      with run Some True show ?thesis by simp
    next
      case None
      with run obtain m where u: "sent u = sent w" "tool_message rt call = Some m"
        "messages u = messages w @ [m]"
        by auto
      from Cons.prems body None have "process_calls rt u rest = (w', e)" by simp
      from Cons.IH [OF this] obtain rs where rs: "sent w' = sent u"
        "messages w' = messages u @ rs"
        "map Some rs = map (tool_message rt) (take (length rs) (filter runnable rest))"
        "e = None \<longleftrightarrow> length rs = length (filter runnable rest)"
        by auto
      have a: "messages w' = messages w @ (m # rs)" using u rs by simp
      have b: "map Some (m # rs) =
          map (tool_message rt) (take (length (m # rs)) (filter runnable (call # rest)))"
        using u rs True by simp
      have c: "e = None \<longleftrightarrow> length (m # rs) = length (filter runnable (call # rest))"
        using rs True by simp
      have s: "sent w' = sent w" using u rs by simp
      from a b c have "\<exists>rs. messages w' = messages w @ rs
            \<and> map Some rs =
                map (tool_message rt) (take (length rs) (filter runnable (call # rest)))
            \<and> (e = None \<longleftrightarrow> length rs = length (filter runnable (call # rest)))"
        by blast
      with s show ?thesis by simp
    qed
  qed
qed

text \<open>
  The conversation only grows: the conversation after a part of the list is an initial
  segment of the conversation after the whole list.
\<close>

lemma process_calls_grows:
  "prefix (messages (fst (process_calls rt w xs))) (messages (fst (process_calls rt w (xs @ ys))))"
proof -
  obtain u e where 1: "process_calls rt w xs = (u, e)" by (cases "process_calls rt w xs")
  show ?thesis
  proof (cases e)
    case (Some err)
    with 1 show ?thesis by (simp add: process_calls_append)
  next
    case None
    obtain u' e' where 2: "process_calls rt u ys = (u', e')" by (cases "process_calls rt u ys")
    from process_calls_effect [OF 2] obtain rs where "messages u' = messages u @ rs" by auto
    with 1 2 None show ?thesis by (simp add: process_calls_append)
  qed
qed

section \<open>The shape of a run\<close>

lemma final_pass_effect:
  "messages (fst (final_pass create w)) = messages w
   \<and> sent (fst (final_pass create w)) =
       sent w @ [\<lparr> req_model = ''openai/gpt-4o-mini'', req_messages = messages w,
                   req_tools = None, req_tool_choice = None \<rparr>]"
  by (auto simp: final_pass_def Let_def send_def console_log_def split: option.splits list.splits)

lemma run_no_reply:
  "create first_request = None \<Longrightarrow>
   runBookingAgent rt create =
     (\<lparr> messages = [User user_query], sent = [first_request], console = [] \<rparr>, Some APIError)"
  by (simp add: runBookingAgent_def Let_def send_def)

lemma run_no_choice:
  "create first_request = Some response \<Longrightarrow> choices response = [] \<Longrightarrow>
   runBookingAgent rt create =
     (\<lparr> messages = [User user_query], sent = [first_request], console = [] \<rparr>, Some TypeError)"
  by (simp add: runBookingAgent_def Let_def send_def)

text \<open>
  When the message of the first reply has no list of tool calls, the run executes no
  tool, sends no second request and prints the content of the reply last.
\<close>

lemma run_direct:
  "create first_request = Some response \<Longrightarrow> choices response = c # cs \<Longrightarrow>
   tool_calls (message c) = None \<Longrightarrow>
   runBookingAgent rt create =
     (\<lparr> messages = [User user_query, Assistant (message c)],
        sent = [first_request],
        console = [[PStr ''Model Response:''],
                   [PStr ''Finish Reason:'', PStr (finish_reason c)],
                   [PStr ''Direct Response:''],
                   [PContent (content (message c))]] \<rparr>, None)"
  by (simp add: runBookingAgent_def after_first_def Let_def send_def push_def console_log_def)

lemma run_tools:
  "create first_request = Some response \<Longrightarrow> choices response = c # cs \<Longrightarrow>
   tool_calls (message c) = Some calls \<Longrightarrow>
   runBookingAgent rt create =
     (case process_calls rt
             \<lparr> messages = [User user_query, Assistant (message c)],
               sent = [first_request],
               console = [[PStr ''Model Response:''],
                          [PStr ''Finish Reason:'', PStr (finish_reason c)],
                          [PStr ''\<newline>Tools Called:'']] \<rparr> calls of
        (w, Some e) \<Rightarrow> (w, Some e)
      | (w, None) \<Rightarrow> final_pass create w)"
  by (simp add: runBookingAgent_def after_first_def Let_def send_def push_def console_log_def)

text \<open>
  When the list of tool calls is there and empty, the run sends the second request, with
  the user's message and the reply as its conversation.
\<close>

lemma empty_list_second_request:
  "create first_request = Some response \<Longrightarrow> choices response = c # cs \<Longrightarrow>
   tool_calls (message c) = Some [] \<Longrightarrow>
   sent (fst (runBookingAgent rt create)) =
     [first_request,
      \<lparr> req_model = ''openai/gpt-4o-mini'',
        req_messages = [User user_query, Assistant (message c)],
        req_tools = None, req_tool_choice = None \<rparr>]"
  using final_pass_effect [of create]
  by (simp add: run_tools)

text \<open>
  The state a run ends in. Its conversation is the user's message and, if there is one,
  the reply, followed by the tool-result messages of an initial segment of the runnable
  entries. Either the first request is the only one sent, or a second one follows it which
  carries the whole conversation and no tools, and then every runnable entry has its
  tool-result message.
\<close>

lemma run_shape:
  fixes rt create
  defines "W \<equiv> fst (runBookingAgent rt create)"
  defines "calls \<equiv> requested_calls create"
  shows "\<exists>pre rs.
      messages W = pre @ rs
      \<and> list_all (\<lambda>m. \<not> is_tool_result m) pre
      \<and> request_ids pre = map call_id calls
      \<and> map Some rs = map (tool_message rt) (take (length rs) (filter runnable calls))
      \<and> (sent W = [first_request]
           \<and> (snd (runBookingAgent rt create) = None \<longrightarrow> rs = [] \<and> calls = [])
         \<or> sent W = [first_request,
               \<lparr> req_model = ''openai/gpt-4o-mini'', req_messages = messages W,
                 req_tools = None, req_tool_choice = None \<rparr>]
           \<and> length rs = length (filter runnable calls))"
proof (cases "create first_request")
  case None
  then show ?thesis
    unfolding W_def calls_def
    by (intro exI [of _ "[User user_query]"] exI [of _ "[]"])
      (simp add: run_no_reply requested_calls_def)
next
  case (Some response)
  show ?thesis
  proof (cases "choices response")
    case Nil
    with Some show ?thesis
      unfolding W_def calls_def
      by (intro exI [of _ "[User user_query]"] exI [of _ "[]"])
        (simp add: run_no_choice requested_calls_def)
  next
    case (Cons c cs)
    show ?thesis
    proof (cases "tool_calls (message c)")
      case None
      with Some Cons show ?thesis
        unfolding W_def calls_def
        by (intro exI [of _ "[User user_query, Assistant (message c)]"] exI [of _ "[]"])
          (simp add: run_direct requested_calls_def)
    next
      case (Some cl)
      let ?w = "\<lparr> messages = [User user_query, Assistant (message c)],
               sent = [first_request],
               console = [[PStr ''Model Response:''],
                          [PStr ''Finish Reason:'', PStr (finish_reason c)],
                          [PStr ''\<newline>Tools Called:'']] \<rparr>"
      have calls: "calls = cl"
        unfolding calls_def using \<open>create first_request = Some response\<close> Cons Some
        by (simp add: requested_calls_def)
      have run: "runBookingAgent rt create =
          (case process_calls rt ?w cl of
             (w, Some e) \<Rightarrow> (w, Some e)
           | (w, None) \<Rightarrow> final_pass create w)"
        using \<open>create first_request = Some response\<close> Cons Some by (rule run_tools)
      obtain u e where pc: "process_calls rt ?w cl = (u, e)" by (cases "process_calls rt ?w cl")
      from process_calls_effect [OF pc] obtain rs where rs:
        "sent u = [first_request]" "messages u = [User user_query, Assistant (message c)] @ rs"
        "map Some rs = map (tool_message rt) (take (length rs) (filter runnable cl))"
        "e = None \<longleftrightarrow> length rs = length (filter runnable cl)"
        by auto
      have ids: "request_ids [User user_query, Assistant (message c)] = map call_id cl"
        using Some by simp
      show ?thesis
      proof (cases e)
        case (Some err)
        with run pc have "runBookingAgent rt create = (u, Some err)" by simp
        then have "W = u" "snd (runBookingAgent rt create) = Some err"
          unfolding W_def by simp_all
        with rs(1-3) ids calls show ?thesis
          by (intro exI [of _ "[User user_query, Assistant (message c)]"] exI [of _ rs]) simp
      next
        case None
        with run pc have "runBookingAgent rt create = final_pass create u" by simp
        then have W: "W = fst (final_pass create u)" unfolding W_def by simp
        from final_pass_effect [of create u] W rs
        have "messages W = [User user_query, Assistant (message c)] @ rs"
          "sent W = [first_request,
               \<lparr> req_model = ''openai/gpt-4o-mini'', req_messages = messages W,
                 req_tools = None, req_tool_choice = None \<rparr>]"
          by simp_all
        with rs ids calls None show ?thesis
          by (intro exI [of _ "[User user_query, Assistant (message c)]"] exI [of _ rs]) simp
      qed
    qed
  qed
qed

text \<open>
  The scenario of the README: the flight and the hotel results are appended, in this order
  and under the identifiers of their requests, and the second request carries them.
\<close>

lemma trip_scenario:
  "runBookingAgent example_rt trip_create =
     (\<lparr> messages =
          [User user_query,
           Assistant \<lparr> content = None, tool_calls = Some [flight_call, hotel_call] \<rparr>,
           Tool ''call_1'' (example_stringify (Flight
             \<lparr> origin = JStr ''Lagos'', destination = JStr ''Nairobi'',
               tripType = JStr ''round-trip'', totalFlightTimeHours = number 11,
               totalCostUSD = number 840 \<rparr>)),
           Tool ''call_2'' (example_stringify (Hotel
             \<lparr> city = JStr ''Nairobi'', nights = JNum (number 3), costPerNightUSD = number 120,
               totalHotelCostUSD = number 360 \<rparr>))],
        sent =
          [first_request,
           \<lparr> req_model = ''openai/gpt-4o-mini'',
             req_messages =
               [User user_query,
                Assistant \<lparr> content = None, tool_calls = Some [flight_call, hotel_call] \<rparr>,
                Tool ''call_1'' (example_stringify (Flight
                  \<lparr> origin = JStr ''Lagos'', destination = JStr ''Nairobi'',
                    tripType = JStr ''round-trip'', totalFlightTimeHours = number 11,
                    totalCostUSD = number 840 \<rparr>)),
                Tool ''call_2'' (example_stringify (Hotel
                  \<lparr> city = JStr ''Nairobi'', nights = JNum (number 3), costPerNightUSD = number 120,
                    totalHotelCostUSD = number 360 \<rparr>))],
             req_tools = None, req_tool_choice = None \<rparr>],
        console =
          [[PStr ''Model Response:''],
           [PStr ''Finish Reason:'', PStr ''stop''],
           [PStr ''\<newline>Tools Called:''],
           [PStr ''\<newline>Calling: get_flight_schedule''],
           [PStr ''Arguments:'',
            PVal (JObj [(''origin'', JStr ''Lagos''), (''destination'', JStr ''Nairobi''),
                        (''tripType'', JStr ''round-trip'')])],
           [PStr ''Result:'', PResult (Flight
             \<lparr> origin = JStr ''Lagos'', destination = JStr ''Nairobi'',
               tripType = JStr ''round-trip'', totalFlightTimeHours = number 11,
               totalCostUSD = number 840 \<rparr>)],
           [PStr ''\<newline>Calling: get_hotel_booking''],
           [PStr ''Arguments:'',
            PVal (JObj [(''city'', JStr ''Nairobi''), (''nights'', JNum (number 3))])],
           [PStr ''Result:'', PResult (Hotel
             \<lparr> city = JStr ''Nairobi'', nights = JNum (number 3), costPerNightUSD = number 120,
               totalHotelCostUSD = number 360 \<rparr>)],
           [PStr ''\<newline>Final Answer:\<newline>''],
           [PContent (content final_answer)]] \<rparr>,
      None)"
  by (simp add: evaluate)

section \<open>Matching tool results with requests\<close>

lemma matched_from_append:
  "matched_from e (xs @ ys) = (matched_from e xs \<and> matched_from (e @ xs) ys)"
  by (induction xs arbitrary: e) simp_all

lemma matched_from_no_tool: "list_all (\<lambda>m. \<not> is_tool_result m) ms \<Longrightarrow> matched_from e ms"
proof (induction ms arbitrary: e)
  case Nil
  show ?case by simp
next
  case (Cons m ms)
  then show ?case by (cases m) simp_all
qed

lemma count_list_distinct: "distinct xs \<Longrightarrow> x \<in> set xs \<Longrightarrow> count_list xs x = 1"
  by (induction xs) (auto simp: count_list_0_iff)

lemma matched_from_tool_results:
  "list_all is_tool_result rs \<Longrightarrow> distinct (request_ids e) \<Longrightarrow>
   set (result_ids rs) \<subseteq> set (request_ids e) \<Longrightarrow> matched_from e rs"
proof (induction rs arbitrary: e)
  case Nil
  show ?case by simp
next
  case (Cons r rs)
  from Cons.prems(1) obtain i c where r: "r = Tool i c" by (cases r) simp_all
  have same: "request_ids (e @ [r]) = request_ids e" by (simp add: request_ids_append r)
  from Cons.prems r have "count_list (request_ids e) i = 1"
    by (simp add: count_list_distinct)
  moreover have "matched_from (e @ [r]) rs"
    using Cons.IH [of "e @ [r]"] Cons.prems r same by simp
  ultimately show ?case by (simp add: r)
qed

lemma matched_from_take: "matched_from e ms \<Longrightarrow> matched_from e (take k ms)"
  using matched_from_append [of e "take k ms" "drop k ms"] by simp

section \<open>The orchestrator: results\<close>

text \<open>
  Claim C6. If the first reply contains no tool-invocation request, the run should execute
  no tool, send no second request and print the content of the first reply as the final
  output. The program does so when the reply has no list of tool calls (\<open>run_direct\<close>).
  It does not when the list is there and empty: on the reply
  \<^verbatim>\<open>{content: "Hello", tool_calls: []}\<close> no tool is executed, yet the second request is
  sent, and the console ends with the reply to it and never shows \<^verbatim>\<open>Hello\<close>.
\<close>

theorem empty_list_final_pass:
  "requested_calls empty_list_create = []
   \<and> messages (fst (runBookingAgent example_rt empty_list_create)) =
       [User user_query, Assistant \<lparr> content = Some ''Hello'', tool_calls = Some [] \<rparr>]
   \<and> map req_model (sent (fst (runBookingAgent example_rt empty_list_create))) =
       [MODEL_NAME, ''openai/gpt-4o-mini'']
   \<and> console (fst (runBookingAgent example_rt empty_list_create)) =
       [[PStr ''Model Response:''],
        [PStr ''Finish Reason:'', PStr ''stop''],
        [PStr ''\<newline>Tools Called:''],
        [PStr ''\<newline>Final Answer:\<newline>''],
        [PContent (content final_answer)]]"
  by (simp add: evaluate)

text \<open>
  Claim C7. The tool-result messages of the conversation a run ends with are, one by one
  and in this order, the messages for the entries of the first reply's list that the loop
  runs, up to the entry that stopped the run if one did: the entries are processed in the
  order of the list, one message appended for each, under its identifier. When the run
  ends without an error, and whenever the second request was sent, every such entry has
  its message.
\<close>

theorem results_in_request_order:
  "map Some (filter is_tool_result (messages (fst (runBookingAgent rt create)))) =
     map (tool_message rt)
       (take (length (filter is_tool_result (messages (fst (runBookingAgent rt create)))))
          (filter runnable (requested_calls create)))
   \<and> prefix (result_ids (messages (fst (runBookingAgent rt create))))
       (map call_id (filter runnable (requested_calls create)))
   \<and> (snd (runBookingAgent rt create) = None \<longrightarrow>
        result_ids (messages (fst (runBookingAgent rt create))) =
          map call_id (filter runnable (requested_calls create)))
   \<and> (length (sent (fst (runBookingAgent rt create))) = 2 \<longrightarrow>
        result_ids (messages (fst (runBookingAgent rt create))) =
          map call_id (filter runnable (requested_calls create)))"
proof -
  let ?cs = "filter runnable (requested_calls create)"
  from run_shape [of rt create] obtain pre rs where
    m: "messages (fst (runBookingAgent rt create)) = pre @ rs"
    and pre: "list_all (\<lambda>m. \<not> is_tool_result m) pre"
    and ans: "map Some rs = map (tool_message rt) (take (length rs) ?cs)"
    and s: "sent (fst (runBookingAgent rt create)) = [first_request]
           \<and> (snd (runBookingAgent rt create) = None \<longrightarrow>
                rs = [] \<and> requested_calls create = [])
         \<or> length (sent (fst (runBookingAgent rt create))) = 2
           \<and> length rs = length ?cs"
    by auto
  from answered_ids [OF ans] have rs: "list_all is_tool_result rs"
    and ids_rs: "result_ids rs = map call_id (take (length rs) ?cs)"
    by simp_all
  have tools: "filter is_tool_result (messages (fst (runBookingAgent rt create))) = rs"
    unfolding m using pre rs by (rule filter_tool_results)
  have ids: "result_ids (messages (fst (runBookingAgent rt create))) =
      map call_id (take (length rs) ?cs)"
    using m pre ids_rs by (simp add: result_ids_append result_ids_no_tool)
  have pfx: "prefix (map call_id (take (length rs) ?cs)) (map call_id ?cs)"
    by (intro map_mono_prefix take_is_prefix)
  from s show ?thesis unfolding tools ids using ans pfx by auto
qed

text \<open>A flight, an entry of another type and a hotel: two results, flight first.\<close>

theorem results_in_request_order_witness:
  "snd (runBookingAgent example_rt mixed_create) = None
   \<and> length (sent (fst (runBookingAgent example_rt mixed_create))) = 2
   \<and> map call_id (requested_calls mixed_create) = [''call_1'', ''call_x'', ''call_2'']
   \<and> result_ids (messages (fst (runBookingAgent example_rt mixed_create))) =
       [''call_1'', ''call_2'']
   \<and> map Some (filter is_tool_result (messages (fst (runBookingAgent example_rt mixed_create))))
       = [tool_message example_rt flight_call, tool_message example_rt hotel_call]"
proof -
  have run: "snd (runBookingAgent example_rt mixed_create) = None" by (simp add: evaluate)
  have two: "length (sent (fst (runBookingAgent example_rt mixed_create))) = 2" by (simp add: evaluate)
  have calls: "map call_id (requested_calls mixed_create) = [''call_1'', ''call_x'', ''call_2'']"
    by (simp add: evaluate)
  have runnable: "filter runnable (requested_calls mixed_create) = [flight_call, hotel_call]"
    by (simp add: evaluate)
  have ids: "map call_id [flight_call, hotel_call] = [''call_1'', ''call_2'']"
    by (simp add: evaluate)
  have n: "length (filter is_tool_result (messages (fst (runBookingAgent example_rt mixed_create))))
      = 2"
    by (simp add: evaluate)
  from results_in_request_order [of example_rt mixed_create] run two calls
  show ?thesis unfolding runnable n ids by simp
qed

text \<open>
  Without distinct identifiers the match is not unique: when the first reply carries the
  same identifier on two tool calls, both results are appended under it, and each matches
  two requests. The program copies the identifier of a call and does not compare
  identifiers.
\<close>

lemma same_identifier_not_matched:
  "map call_id (requested_calls same_id_create) = [''call_1'', ''call_1'']
   \<and> result_ids (messages (fst (runBookingAgent example_rt same_id_create))) =
       [''call_1'', ''call_1'']
   \<and> \<not> results_matched (messages (fst (runBookingAgent example_rt same_id_create)))"
  by (simp add: evaluate)

text \<open>
  Claim C8. The tool calls of a reply carry pairwise distinct identifiers; this is how the
  interface of the model endpoint describes them. Then the identifier of each tool-result
  message is that of exactly one earlier tool-invocation request, in the conversation a
  run ends with and in each of its initial segments; the conversation only grows by
  appending, so these are the conversations the run reaches. And, whatever the
  identifiers are, a request sent after the first carries the whole final conversation:
  every tool-result message was appended before it was sent.
\<close>

theorem results_matched_run:
  "(distinct (map call_id (requested_calls create)) \<longrightarrow>
      (\<forall>k. results_matched (take k (messages (fst (runBookingAgent rt create))))))
   \<and> (\<forall>r \<in> set (tl (sent (fst (runBookingAgent rt create)))).
          req_messages r = messages (fst (runBookingAgent rt create)))"
proof -
  let ?cs = "filter runnable (requested_calls create)"
  from run_shape [of rt create] obtain pre rs where
    m: "messages (fst (runBookingAgent rt create)) = pre @ rs"
    and pre: "list_all (\<lambda>m. \<not> is_tool_result m) pre"
    and req: "request_ids pre = map call_id (requested_calls create)"
    and ans: "map Some rs = map (tool_message rt) (take (length rs) ?cs)"
    and s: "sent (fst (runBookingAgent rt create)) = [first_request]
         \<or> sent (fst (runBookingAgent rt create)) = [first_request,
               \<lparr> req_model = ''openai/gpt-4o-mini'',
                 req_messages = messages (fst (runBookingAgent rt create)),
                 req_tools = None, req_tool_choice = None \<rparr>]"
    by auto
  from answered_ids [OF ans] have rs: "list_all is_tool_result rs"
    and ids: "result_ids rs = map call_id (take (length rs) ?cs)"
    by simp_all
  have "set (result_ids rs) \<subseteq> set (map call_id ?cs)"
    unfolding ids by (intro set_mono_prefix map_mono_prefix take_is_prefix)
  also have "\<dots> \<subseteq> set (request_ids pre)" unfolding req by auto
  finally have sub: "set (result_ids rs) \<subseteq> set (request_ids ([] @ pre))" by simp
  have "results_matched (take k (messages (fst (runBookingAgent rt create))))"
    if d: "distinct (map call_id (requested_calls create))" for k
  proof -
    have "matched_from ([] @ pre) rs"
      using rs sub d req by (intro matched_from_tool_results) simp_all
    with pre have "matched_from [] (pre @ rs)"
      by (simp add: matched_from_append matched_from_no_tool)
    then show ?thesis
      unfolding results_matched_def m by (rule matched_from_take)
  qed
  moreover have "\<forall>r \<in> set (tl (sent (fst (runBookingAgent rt create)))).
          req_messages r = messages (fst (runBookingAgent rt create))"
    using s by auto
  ultimately show ?thesis by blast
qed

theorem results_matched_run_witness:
  "distinct (map call_id (requested_calls trip_create))
   \<and> result_ids (messages (fst (runBookingAgent example_rt trip_create))) =
       [''call_1'', ''call_2'']
   \<and> results_matched (take 3 (messages (fst (runBookingAgent example_rt trip_create))))
   \<and> results_matched (messages (fst (runBookingAgent example_rt trip_create)))
   \<and> length (sent (fst (runBookingAgent example_rt trip_create))) = 2
   \<and> req_messages (sent (fst (runBookingAgent example_rt trip_create)) ! 1) =
       messages (fst (runBookingAgent example_rt trip_create))
   \<and> length (sent (fst (runBookingAgent example_rt same_id_create))) = 2
   \<and> req_messages (sent (fst (runBookingAgent example_rt same_id_create)) ! 1) =
       messages (fst (runBookingAgent example_rt same_id_create))"
proof -
  have d: "distinct (map call_id (requested_calls trip_create))" by (simp add: evaluate)
  have ids: "result_ids (messages (fst (runBookingAgent example_rt trip_create))) =
      [''call_1'', ''call_2'']"
    by (simp add: evaluate)
  have len: "length (messages (fst (runBookingAgent example_rt trip_create))) = 4"
    by (simp add: evaluate)
  have two: "length (sent (fst (runBookingAgent example_rt trip_create))) = 2" by (simp add: evaluate)
  have two': "length (sent (fst (runBookingAgent example_rt same_id_create))) = 2"
    by (simp add: evaluate)
  note inst = results_matched_run [of trip_create example_rt]
  note inst' = results_matched_run [of same_id_create example_rt]
  from inst d
  have "results_matched (take 3 (messages (fst (runBookingAgent example_rt trip_create))))"
    by blast
  moreover from inst d
  have "results_matched (take 4 (messages (fst (runBookingAgent example_rt trip_create))))"
    by blast
  then have "results_matched (messages (fst (runBookingAgent example_rt trip_create)))"
    using len by simp
  moreover have "sent (fst (runBookingAgent example_rt trip_create)) ! 1
      \<in> set (tl (sent (fst (runBookingAgent example_rt trip_create))))"
    using two by (cases "sent (fst (runBookingAgent example_rt trip_create))") auto
  with inst have "req_messages (sent (fst (runBookingAgent example_rt trip_create)) ! 1) =
       messages (fst (runBookingAgent example_rt trip_create))"
    by blast
  moreover have "sent (fst (runBookingAgent example_rt same_id_create)) ! 1
      \<in> set (tl (sent (fst (runBookingAgent example_rt same_id_create))))"
    using two' by (cases "sent (fst (runBookingAgent example_rt same_id_create))") auto
  with inst' have "req_messages (sent (fst (runBookingAgent example_rt same_id_create)) ! 1) =
       messages (fst (runBookingAgent example_rt same_id_create))"
    by blast
  ultimately show ?thesis using d ids two two' by simp
qed

text \<open>
  Claim C9. When the message of the first reply has a list of tool calls and the loop over
  it throws nothing, the run sends exactly one request after the first. It carries the
  whole conversation, which is the user's message, the reply, and the tool-result message
  of each entry the loop runs, in their order; it has no tools and no tool choice, where
  the first request has the tool catalogue; and its model is not the model of the first.
  Whether the loop throws does not depend on the state it starts in
  (\<open>process_calls_error_indep\<close>), so \<open>w\<close> is any state.
\<close>

theorem second_model_call:
  assumes "create first_request = Some response"
    and "choices response = c # cs"
    and "tool_calls (message c) = Some calls"
    and "snd (process_calls rt w calls) = None"
  shows "sent (fst (runBookingAgent rt create)) =
           [first_request,
            \<lparr> req_model = ''openai/gpt-4o-mini'',
              req_messages = messages (fst (runBookingAgent rt create)),
              req_tools = None, req_tool_choice = None \<rparr>]
    \<and> take 2 (messages (fst (runBookingAgent rt create))) =
          [User user_query, Assistant (message c)]
    \<and> map Some (drop 2 (messages (fst (runBookingAgent rt create)))) =
          map (tool_message rt) (filter runnable calls)
    \<and> list_all is_tool_result (drop 2 (messages (fst (runBookingAgent rt create))))
    \<and> result_ids (drop 2 (messages (fst (runBookingAgent rt create)))) =
          map call_id (filter runnable calls)
    \<and> req_tools first_request = Some tools
    \<and> req_model first_request \<noteq> ''openai/gpt-4o-mini''"
proof -
  let ?w = "\<lparr> messages = [User user_query, Assistant (message c)],
               sent = [first_request],
               console = [[PStr ''Model Response:''],
                          [PStr ''Finish Reason:'', PStr (finish_reason c)],
                          [PStr ''\<newline>Tools Called:'']] \<rparr>"
  obtain u e where pc: "process_calls rt ?w calls = (u, e)"
    by (cases "process_calls rt ?w calls")
  from process_calls_error_indep [of rt ?w calls w] assms(4) pc have e: "e = None" by simp
  have "runBookingAgent rt create =
      (case process_calls rt ?w calls of
         (w, Some e) \<Rightarrow> (w, Some e)
       | (w, None) \<Rightarrow> final_pass create w)"
    using assms(1-3) by (rule run_tools)
  with pc e have run: "runBookingAgent rt create = final_pass create u" by simp
  from process_calls_effect [OF pc] e obtain rs where rs:
    "sent u = [first_request]" "messages u = [User user_query, Assistant (message c)] @ rs"
    "map Some rs = map (tool_message rt) (take (length rs) (filter runnable calls))"
    "length rs = length (filter runnable calls)"
    by auto
  from rs(3,4) have ans: "map Some rs = map (tool_message rt) (filter runnable calls)"
    by simp
  from answered_ids [OF ans] have ids: "list_all is_tool_result rs"
    "result_ids rs = map call_id (filter runnable calls)"
    by simp_all
  from final_pass_effect [of create u] run rs
  have "messages (fst (runBookingAgent rt create)) = [User user_query, Assistant (message c)] @ rs"
    "sent (fst (runBookingAgent rt create)) =
           [first_request,
            \<lparr> req_model = ''openai/gpt-4o-mini'',
              req_messages = messages (fst (runBookingAgent rt create)),
              req_tools = None, req_tool_choice = None \<rparr>]"
    by simp_all
  with ans ids show ?thesis by (simp add: first_request_def MODEL_NAME_def)
qed

theorem second_model_call_witness:
  "trip_create first_request =
     Some (reply \<lparr> content = None, tool_calls = Some [flight_call, hotel_call] \<rparr>)
   \<and> snd (process_calls example_rt \<lparr> messages = [], sent = [], console = [] \<rparr>
          [flight_call, hotel_call]) = None
   \<and> map req_model (sent (fst (runBookingAgent example_rt trip_create))) =
        [''nvidia/nemotron-3-nano-30b-a3b:free'', ''openai/gpt-4o-mini'']
   \<and> map req_tools (sent (fst (runBookingAgent example_rt trip_create))) = [Some tools, None]
   \<and> req_messages (sent (fst (runBookingAgent example_rt trip_create)) ! 1) =
        messages (fst (runBookingAgent example_rt trip_create))
   \<and> result_ids (drop 2 (messages (fst (runBookingAgent example_rt trip_create)))) =
        [''call_1'', ''call_2'']"
proof -
  let ?m = "\<lparr> content = None, tool_calls = Some [flight_call, hotel_call] \<rparr>"
  have 1: "trip_create first_request = Some (reply ?m)"
    by (simp add: trip_create_def scripted_def first_request_def)
  have 2: "choices (reply ?m) = [\<lparr> message = ?m, finish_reason = ''stop'' \<rparr>]"
    by (simp add: reply_def)
  have 3: "tool_calls (message \<lparr> message = ?m, finish_reason = ''stop'' \<rparr>) =
      Some [flight_call, hotel_call]"
    by simp
  have 4: "snd (process_calls example_rt \<lparr> messages = [], sent = [], console = [] \<rparr>
             [flight_call, hotel_call]) = None"
    by (simp add: evaluate)
  have 5: "map call_id (filter runnable [flight_call, hotel_call]) = [''call_1'', ''call_2'']"
    by (simp add: evaluate)
  from second_model_call [of trip_create "reply ?m"
      "\<lparr> message = ?m, finish_reason = ''stop'' \<rparr>" "[]" "[flight_call, hotel_call]"
      example_rt "\<lparr> messages = [], sent = [], console = [] \<rparr>", OF 1 2 3 4] 1 4 5
  show ?thesis
    by (simp add: first_request_def MODEL_NAME_def)
qed

text \<open>
  Claim C10. An entry of the list whose type is not \<^verbatim>\<open>'function'\<close>, or which has no
  \<^verbatim>\<open>function\<close> field, is skipped: the loop body leaves the state as it is (no tool is
  executed, no message appended, nothing printed) and throws nothing, and the loop over a
  list with such an entry is the loop over the list without it, so the entries around it
  are processed as before and in their order.
\<close>

theorem skipped_entry:
  assumes "call_type call \<noteq> ''function'' \<or> call_function call = None"
  shows "loop_body rt w call = (w, None)
    \<and> process_calls rt w (before @ call # rest) = process_calls rt w (before @ rest)"
proof -
  from assms have skip: "loop_body rt w' call = (w', None)" for w'
    by (simp add: loop_body_skip runnable_def)
  have step: "process_calls rt w' (call # rest) = process_calls rt w' rest" for w'
    by (simp add: skip)
  obtain u e where pc: "process_calls rt w before = (u, e)"
    by (cases "process_calls rt w before")
  have "process_calls rt w (before @ call # rest) = process_calls rt w (before @ rest)"
  proof (cases e)
    case None
    with pc step [of u] show ?thesis by (simp only: process_calls_append prod.case option.case)
  next
    case (Some err)
    with pc show ?thesis by (simp only: process_calls_append prod.case option.case)
  qed
  with skip show ?thesis by simp
qed

theorem skipped_entry_witness:
  "call_type custom_call = ''custom''
   \<and> call_function custom_call = None
   \<and> loop_body example_rt \<lparr> messages = [], sent = [], console = [] \<rparr> custom_call =
       (\<lparr> messages = [], sent = [], console = [] \<rparr>, None)
   \<and> process_calls example_rt \<lparr> messages = [], sent = [], console = [] \<rparr>
        [flight_call, custom_call, hotel_call] =
       process_calls example_rt \<lparr> messages = [], sent = [], console = [] \<rparr>
        [flight_call, hotel_call]
   \<and> result_ids (messages (fst (process_calls example_rt
        \<lparr> messages = [], sent = [], console = [] \<rparr>
        [flight_call, custom_call, hotel_call]))) = [''call_1'', ''call_2'']"
proof -
  have 1: "call_type custom_call \<noteq> ''function'' \<or> call_function custom_call = None"
    by (simp add: custom_call_def)
  have 2: "result_ids (messages (fst (process_calls example_rt
        \<lparr> messages = [], sent = [], console = [] \<rparr> [flight_call, hotel_call]))) =
      [''call_1'', ''call_2'']"
    by (simp add: evaluate)
  from skipped_entry [OF 1, of example_rt "\<lparr> messages = [], sent = [], console = [] \<rparr>"
      "[flight_call]" "[hotel_call]"] 1 2
  show ?thesis by (simp add: custom_call_def)
qed

end
